theory Spec2Isabelle
  imports Complex_Main "HOL-Library.Sublist"
begin

section \<open>Text\<close>

text \<open>
  Python's \<open>str\<close> is modelled by \<open>string\<close>: a \<open>char\<close> stands for one code point
  below 256, so \<open>length\<close> is Python's \<open>len\<close> on such text. Text with code points
  from 256 on is outside the model.
\<close>

definition lower_char :: "char \<Rightarrow> char" where
  "lower_char c =
     (let n = (of_char c :: nat) in
      if (65 \<le> n \<and> n \<le> 90) \<or> (192 \<le> n \<and> n \<le> 222 \<and> n \<noteq> 215)
      then char_of (n + 32) else c)"

text \<open>\<open>s.lower()\<close>\<close>

definition lower :: "string \<Rightarrow> string" where
  "lower s = map lower_char s"

text \<open>\<open>sub in s\<close>\<close>

fun contains :: "string \<Rightarrow> string \<Rightarrow> bool" where
  "contains sub [] = (sub = [])"
| "contains sub (c # cs) = (prefix sub (c # cs) \<or> contains sub cs)"

text \<open>\<open>s.endswith(suf)\<close>\<close>

definition endswith :: "string \<Rightarrow> string \<Rightarrow> bool" where
  "endswith s suf = suffix suf s"

text \<open>
  \<open>s.replace(old, new)\<close> for a non-empty \<open>old\<close> (the only use in the sources):
  occurrences are replaced from the left, without overlap.
\<close>

function py_replace :: "string \<Rightarrow> string \<Rightarrow> string \<Rightarrow> string" where
  "py_replace old new s =
     (if old \<noteq> [] \<and> prefix old s then new @ py_replace old new (drop (length old) s)
      else (case s of [] \<Rightarrow> [] | c # cs \<Rightarrow> c # py_replace old new cs))"
  by pat_completeness auto
termination
  by (relation "measure (\<lambda>(old, new, s). length s)") (auto simp: prefix_def)

declare py_replace.simps [simp del]

text \<open>\<open>s.replace(old, new, 1)\<close>: only the leftmost occurrence.\<close>

fun py_replace_first :: "string \<Rightarrow> string \<Rightarrow> string \<Rightarrow> string" where
  "py_replace_first old new [] = (if old = [] then new else [])"
| "py_replace_first old new (c # cs) =
     (if prefix old (c # cs) then new @ drop (length old) (c # cs)
      else c # py_replace_first old new cs)"

text \<open>\<open>s.split(sep)[0]\<close> for a one-character separator: the text before its first occurrence.\<close>

definition split_head :: "char \<Rightarrow> string \<Rightarrow> string" where
  "split_head sep s = takeWhile (\<lambda>c. c \<noteq> sep) s"

text \<open>Decimal rendering of a natural number, as \<open>str(n)\<close> and \<open>f"{n}"\<close> give it.\<close>

fun show_nat :: "nat \<Rightarrow> string" where
  "show_nat n =
     (if n < 10 then [char_of (48 + n)]
      else show_nat (n div 10) @ [char_of (48 + n mod 10)])"

declare show_nat.simps [simp del]

section \<open>Regular expressions\<close>

text \<open>
  The patterns of the sources are sequences of literals, repeated character classes and
  one alternation of literals, with at most one capturing group. \<open>match_item i s\<close> lists
  the remainders of \<open>s\<close> after each way \<open>i\<close> can match at its start, in the order in
  which the backtracking matcher of \<open>re\<close> tries them: a greedy repetition longest
  first, a lazy one shortest first, an alternation left to right.
\<close>

datatype item =
    Lit string
  | Star "char \<Rightarrow> bool"
  | Plus "char \<Rightarrow> bool"
  | Lazy "char \<Rightarrow> bool"
  | Alt "string list"

fun match_item :: "item \<Rightarrow> string \<Rightarrow> string list" where
  "match_item (Lit l) s = (if prefix l s then [drop (length l) s] else [])"
| "match_item (Star p) s = map (\<lambda>k. drop k s) (rev [0 ..< Suc (length (takeWhile p s))])"
| "match_item (Plus p) s = map (\<lambda>k. drop k s) (rev [1 ..< Suc (length (takeWhile p s))])"
| "match_item (Lazy p) s = map (\<lambda>k. drop k s) [0 ..< Suc (length (takeWhile p s))]"
| "match_item (Alt ls) s =
     concat (map (\<lambda>l. if prefix l s then [drop (length l) s] else []) ls)"

fun match_items :: "item list \<Rightarrow> string \<Rightarrow> string list" where
  "match_items [] s = [s]"
| "match_items (i # is) s = concat (map (match_items is) (match_item i s))"

text \<open>
  A pattern is the items before the group, the items of the group and the items after
  it. \<open>match_at p s\<close> lists the matches of \<open>p\<close> at the start of \<open>s\<close> in the matcher's
  order, each as the group's text and the remainder after the whole match; the head of
  the list is the match \<open>re\<close> reports.
\<close>

record pattern =
  pre :: "item list"
  grp :: "item list"
  post :: "item list"

definition match_at :: "pattern \<Rightarrow> string \<Rightarrow> (string \<times> string) list" where
  "match_at p s =
     concat (map (\<lambda>r1.
       concat (map (\<lambda>r2.
         map (\<lambda>r3. (take (length r1 - length r2) r1, r3)) (match_items (post p) r2))
       (match_items (grp p) r1)))
     (match_items (pre p) s))"

text \<open>\<open>re.search(p, s)\<close>, as \<open>m.group(1)\<close> of the leftmost match, or \<open>None\<close>.\<close>

fun re_search :: "pattern \<Rightarrow> string \<Rightarrow> string option" where
  "re_search p [] = (case match_at p [] of [] \<Rightarrow> None | (g, r) # _ \<Rightarrow> Some g)"
| "re_search p (c # cs) =
     (case match_at p (c # cs) of [] \<Rightarrow> re_search p cs | (g, r) # _ \<Rightarrow> Some g)"

text \<open>
  \<open>re.findall(p, s)\<close>: the groups of the matches found from left to right, each search
  starting where the last match ended. The counter is the number of characters still
  covered by the last match.
\<close>

fun findall_from :: "pattern \<Rightarrow> nat \<Rightarrow> string \<Rightarrow> string list" where
  "findall_from p k [] = []"
| "findall_from p (Suc k) (c # cs) = findall_from p k cs"
| "findall_from p 0 (c # cs) =
     (case match_at p (c # cs) of
        [] \<Rightarrow> findall_from p 0 cs
      | (g, r) # _ \<Rightarrow> g # findall_from p (length cs - length r) cs)"

definition re_findall :: "pattern \<Rightarrow> string \<Rightarrow> string list" where
  "re_findall p s = findall_from p 0 s"

text \<open>Character classes.\<close>

definition is_digit :: "char \<Rightarrow> bool" where
  "is_digit c = (c \<in> set ''0123456789'')"

definition is_space :: "char \<Rightarrow> bool" where
  "is_space c = ((of_char c :: nat) \<in> {9, 10, 11, 12, 13, 28, 29, 30, 31, 32, 133, 160})"

definition is_dot :: "char \<Rightarrow> bool" where
  "is_dot c = (c \<noteq> CHR 0x0A)"

definition not_char :: "char \<Rightarrow> char \<Rightarrow> bool" where
  "not_char x c = (c \<noteq> x)"

section \<open>url\_parser.py\<close>

text \<open>\<open>URLParser.extract_platform\<close>\<close>

definition extract_platform :: "string \<Rightarrow> string option" where
  "extract_platform url =
     (let url_lower = lower url in
      if list_ex (\<lambda>domain. contains domain url_lower) [''youtube.com'', ''youtu.be'']
      then Some ''youtube''
      else if list_ex (\<lambda>domain. contains domain url_lower)
                [''tiktok.com'', ''vm.tiktok.com'', ''vt.tiktok.com'']
      then Some ''tiktok''
      else if list_ex (\<lambda>domain. contains domain url_lower) [''instagram.com'', ''instagr.am'']
      then Some ''instagram''
      else if list_ex (\<lambda>domain. contains domain url_lower)
                [''pinterest.com'', ''pinterest.'', ''pin.it'']
      then Some ''pinterest''
      else None)"

text \<open>\<open>URLParser.normalize_url\<close>\<close>

definition normalize_url :: "string \<Rightarrow> string" where
  "normalize_url url0 =
     (let url = split_head (CHR ''#'') (split_head (CHR ''?'') url0) in
      if prefix ''http://'' url then py_replace_first ''http://'' ''https://'' url
      else if \<not> prefix ''https://'' url then ''https://'' @ url
      else url)"

text \<open>
  The platforms in the order in which \<open>extract_platform\<close> tests them, each with the
  texts it looks for.
\<close>

definition platform_table :: "(string \<times> string list) list" where
  "platform_table =
     [(''youtube'', [''youtube.com'', ''youtu.be'']),
      (''tiktok'', [''tiktok.com'', ''vm.tiktok.com'', ''vt.tiktok.com'']),
      (''instagram'', [''instagram.com'', ''instagr.am'']),
      (''pinterest'', [''pinterest.com'', ''pinterest.'', ''pin.it''])]"

definition mentions :: "string list \<Rightarrow> string \<Rightarrow> bool" where
  "mentions ds url = list_ex (\<lambda>d. sublist d (lower url)) ds"

section \<open>Python values, exceptions and results\<close>

text \<open>
  The values \<open>json.loads\<close> returns, which are also the values the result dictionaries
  hold: \<open>JNull\<close> is \<open>None\<close>, a \<open>JObj\<close> is a \<open>dict\<close> read with \<open>map_of\<close>.
  The floats \<open>nan\<close> and \<open>inf\<close> are outside the model.
\<close>

datatype json =
    JNull
  | JBool bool
  | JInt int
  | JFloat rat
  | JStr string
  | JArr "json list"
  | JObj "(string \<times> json) list"

type_synonym pydict = "(string \<times> json) list"

text \<open>
  The exceptions of class \<open>Exception\<close>, which \<open>except Exception\<close> catches.
  \<open>Exception m\<close> is one whose \<open>str\<close> is \<open>m\<close>: the one \<open>download_file\<close> raises
  itself, and the faults of the network and the file system. The others are the
  interpreter's and the decoder's, raised by the operations below and by
  \<open>json.loads\<close>.
\<close>

datatype exn =
    Exception string
  | AttributeError
  | TypeError
  | KeyError
  | IndexError
  | FileNotFoundError
  | JSONDecodeError
  | RecursionError
  | ValueError

text \<open>
  What ends a request for the media file or the loop that writes it: an exception of
  class \<open>Exception\<close>, or the cancellation of the task. \<open>asyncio.CancelledError\<close> is a
  \<open>BaseException\<close> and not an \<open>Exception\<close>, so \<open>except Exception\<close> does not catch
  it.
\<close>

datatype fault = Error exn | Cancelled

definition try_bind :: "exn + 'a \<Rightarrow> ('a \<Rightarrow> exn + 'b) \<Rightarrow> exn + 'b" where
  "try_bind m f = (case m of Inl e \<Rightarrow> Inl e | Inr v \<Rightarrow> f v)"

text \<open>\<open>bool(v)\<close>, as \<open>if v\<close>, \<open>not v\<close> and \<open>or\<close> use it.\<close>

fun truthy :: "json \<Rightarrow> bool" where
  "truthy JNull = False"
| "truthy (JBool b) = b"
| "truthy (JInt i) = (i \<noteq> 0)"
| "truthy (JFloat r) = (r \<noteq> 0)"
| "truthy (JStr s) = (s \<noteq> [])"
| "truthy (JArr xs) = (xs \<noteq> [])"
| "truthy (JObj kvs) = (kvs \<noteq> [])"

text \<open>\<open>v.get(k, d)\<close>: only a \<open>dict\<close> has the method.\<close>

fun py_get :: "json \<Rightarrow> string \<Rightarrow> json \<Rightarrow> exn + json" where
  "py_get (JObj kvs) k d = Inr (case map_of kvs k of None \<Rightarrow> d | Some v \<Rightarrow> v)"
| "py_get v k d = Inl AttributeError"

text \<open>
  \<open>v[0]\<close>. The keys of a decoded object are strings, so \<open>0\<close> is never one of them.
\<close>

fun py_first :: "json \<Rightarrow> exn + json" where
  "py_first (JArr (x # xs)) = Inr x"
| "py_first (JArr []) = Inl IndexError"
| "py_first (JStr (c # cs)) = Inr (JStr [c])"
| "py_first (JStr []) = Inl IndexError"
| "py_first (JObj kvs) = Inl KeyError"
| "py_first v = Inl TypeError"

text \<open>\<open>len(v)\<close>\<close>

fun py_len :: "json \<Rightarrow> exn + nat" where
  "py_len (JStr s) = Inr (length s)"
| "py_len (JArr xs) = Inr (length xs)"
| "py_len (JObj kvs) = Inr (length (remdups (map fst kvs)))"
| "py_len v = Inl TypeError"

text \<open>
  \<open>c[:100] + '...' if len(c) > 100 else c\<close>. Only a \<open>str\<close> can be sliced and then
  joined to \<open>'...'\<close>; a longer list or dict raises (which exception a sliced dict
  raises depends on the interpreter's version; every one is an \<open>Exception\<close>).
\<close>

definition clip :: "json \<Rightarrow> exn + json" where
  "clip c =
     try_bind (py_len c) (\<lambda>n.
       if n > 100
       then (case c of JStr s \<Rightarrow> Inr (JStr (take 100 s @ ''...'')) | _ \<Rightarrow> Inl TypeError)
       else Inr c)"

text \<open>
  The failures a resolver returns, each \<open>return {'success': False, 'error': ...}\<close> of
  the sources under the class the specification's taxonomy gives it: \<open>InvalidUrl\<close> (no
  identifier in the URL), \<open>HttpError\<close> (a status other than 200, which the text ends
  with), \<open>NotFound\<close> (the page was fetched and no media reference was located),
  \<open>ParseError\<close> (the embedded object did not decode) and \<open>Fault\<close> for what the
  enclosing \<open>except Exception\<close> catches, with the prefix of its text and the exception.
\<close>

datatype failure =
    InvalidUrl string
  | HttpError string nat
  | NotFound string
  | ParseError string
  | Fault string exn

datatype 'a resolved = Failed failure | Resolved 'a

section \<open>The world outside the program\<close>

text \<open>
  The answers of the network, the decoder and the file system are parameters. Each of
  the three kinds of request is made at most once in a download: the request that
  follows redirects and is read for its final URL, the request for a page, and the
  request for the media file. \<open>body\<close> is \<open>await response.text()\<close>. A media response is
  the chunks that arrive and are written, and the fault, if any, that ends the loop
  after them. \<open>open_wb\<close> is the exception \<open>open(path, 'wb')\<close> raises, if any.
  Cancellation is modelled where a file is at stake, in the request for the media file
  and in the loop that writes it; the requests of the resolvers end in a response or in
  an \<open>Exception\<close>.
  \<open>json_loads\<close> is \<open>json.loads\<close>: the decoded value, or the exception it raises,
  which is \<open>JSONDecodeError\<close> for a text that is not JSON and can be another one
  (\<open>RecursionError\<close> for a text nested too deeply, \<open>ValueError\<close> for a number
  with too many digits).
  \<open>builtin_text\<close> is \<open>str(e)\<close> for the interpreter's exceptions.
\<close>

record page_response =
  status :: nat
  body :: "exn + string"

record media_response =
  media_status :: nat
  chunks :: "string list"
  stream_fault :: "fault option"

record world =
  redirect_get :: "string \<Rightarrow> exn + string"
  page_get :: "string \<Rightarrow> exn + page_response"
  media_get :: "string \<Rightarrow> fault + media_response"
  open_wb :: "string \<Rightarrow> exn option"
  json_loads :: "string \<Rightarrow> exn + json"
  builtin_text :: "exn \<Rightarrow> string"

text \<open>\<open>str(e)\<close>\<close>

definition exn_str :: "world \<Rightarrow> exn \<Rightarrow> string" where
  "exn_str w e = (case e of Exception m \<Rightarrow> m | _ \<Rightarrow> builtin_text w e)"

text \<open>The text of a failure, as the \<open>'error'\<close> entry holds it.\<close>

fun failure_text :: "world \<Rightarrow> failure \<Rightarrow> string" where
  "failure_text w (InvalidUrl m) = m"
| "failure_text w (HttpError m code) = m @ show_nat code"
| "failure_text w (NotFound m) = m"
| "failure_text w (ParseError m) = m"
| "failure_text w (Fault m e) = m @ exn_str w e"

text \<open>
  The configuration module is not among the sources; its three values that the
  downloaders read are parameters.
\<close>

record config =
  download_dir :: string
  max_video_size :: nat
  max_photo_size :: nat

text \<open>The regular files on disk: path to content.\<close>

type_synonym fs = "string \<rightharpoonup> string"

section \<open>base.py\<close>

text \<open>\<open>os.path.join(a, b)\<close> on a POSIX system.\<close>

definition path_join :: "string \<Rightarrow> string \<Rightarrow> string" where
  "path_join a b =
     (if prefix ''/'' b then b
      else if a = [] \<or> endswith a ''/'' then a @ b
      else a @ ''/'' @ b)"

text \<open>\<open>if os.path.exists(p): os.remove(p)\<close>\<close>

definition remove_if_exists :: "string \<Rightarrow> fs \<Rightarrow> fs" where
  "remove_if_exists p files = (if files p \<noteq> None then files(p := None) else files)"

text \<open>\<open>file.write(chunk)\<close> for the chunks in turn.\<close>

fun write_chunks :: "string \<Rightarrow> string list \<Rightarrow> fs \<Rightarrow> fs" where
  "write_chunks p [] files = files"
| "write_chunks p (c # cs) files =
     write_chunks p cs (files(p \<mapsto> (case files p of None \<Rightarrow> c | Some old \<Rightarrow> old @ c)))"

text \<open>
  \<open>session.get(url)\<close> for the media file. The URL comes out of a decoded object and
  need not be a \<open>str\<close>; the client refuses anything else with a \<open>TypeError\<close>.
\<close>

definition request_media :: "world \<Rightarrow> json \<Rightarrow> fault + media_response" where
  "request_media w url =
     (case url of JStr u \<Rightarrow> media_get w u | _ \<Rightarrow> Inl (Error TypeError))"

text \<open>
  \<open>BaseDownloader.download_file\<close>. The body of the \<open>try\<close> gives the outcome and the
  files as it leaves them. The handler \<open>except Exception\<close> removes the file at the
  path and raises again; a cancellation passes it by, and the files stay as the body
  left them. \<open>open(path, 'wb')\<close> empties an existing file. Removing an existing
  regular file succeeds.
\<close>

definition download_file ::
  "config \<Rightarrow> world \<Rightarrow> json \<Rightarrow> string \<Rightarrow> fs \<Rightarrow> (fault + string) \<times> fs" where
  "download_file cfg w url filename files =
     (let file_path = path_join (download_dir cfg) filename;
          attempt =
            (case request_media w url of
               Inl f \<Rightarrow> (Inl f, files)
             | Inr response \<Rightarrow>
                 if media_status response = 200
                 then (case open_wb w file_path of
                         Some e \<Rightarrow> (Inl (Error e), files)
                       | None \<Rightarrow>
                           let written =
                                 write_chunks file_path (chunks response) (files(file_path \<mapsto> []))
                           in (case stream_fault response of
                                 Some f \<Rightarrow> (Inl f, written)
                               | None \<Rightarrow> (Inr file_path, written)))
                 else (Inl (Error (Exception (''HTTP '' @ show_nat (media_status response)
                                                @ '': Failed to download file''))), files))
      in case attempt of
           (Inl (Error e), files') \<Rightarrow> (Inl (Error e), remove_if_exists file_path files')
         | (Inl Cancelled, files') \<Rightarrow> (Inl Cancelled, files')
         | (Inr path, files') \<Rightarrow> (Inr path, files'))"

text \<open>\<open>BaseDownloader.cleanup_file\<close>\<close>

definition cleanup_file :: "string \<Rightarrow> fs \<Rightarrow> fs" where
  "cleanup_file file_path files = remove_if_exists file_path files"

text \<open>\<open>os.path.getsize(path)\<close>\<close>

definition getsize :: "fs \<Rightarrow> string \<Rightarrow> exn + nat" where
  "getsize files path =
     (case files path of None \<Rightarrow> Inl FileNotFoundError | Some content \<Rightarrow> Inr (length content))"

text \<open>
  \<open>f"{file_size / 1024 / 1024:.1f}"\<close>. Below \<open>2 ^ 53\<close> bytes the two divisions by a
  power of two are exact in binary floating point, and the format rounds the exact
  value to one decimal, a tie to the even digit: \<open>round_half_even a b\<close> is \<open>a / b\<close>
  rounded so.
\<close>

definition round_half_even :: "nat \<Rightarrow> nat \<Rightarrow> nat" where
  "round_half_even a b =
     (let q = a div b; r = a mod b in
      if 2 * r < b then q
      else if b < 2 * r then Suc q
      else if even q then q else Suc q)"

definition mb_tenths :: "nat \<Rightarrow> nat" where
  "mb_tenths file_size = round_half_even (file_size * 10) (1024 * 1024)"

definition format_mb :: "nat \<Rightarrow> string" where
  "format_mb file_size =
     show_nat (mb_tenths file_size div 10) @ ''.'' @ show_nat (mb_tenths file_size mod 10)"

text \<open>
  The dictionary a resolver returns for a failure, which \<open>download\<close> hands on as it
  is, and the two dictionaries \<open>download\<close> builds for a failure of its own.
\<close>

definition info_failure :: "world \<Rightarrow> failure \<Rightarrow> pydict" where
  "info_failure w f = [(''success'', JBool False), (''error'', JStr (failure_text w f))]"

definition download_failure :: "string \<Rightarrow> pydict" where
  "download_failure message =
     [(''success'', JBool False), (''error'', JStr message),
      (''file_path'', JNull), (''media_type'', JNull)]"

definition too_large :: "nat \<Rightarrow> pydict" where
  "too_large file_size = download_failure (''File too large ('' @ format_mb file_size @ ''MB)'')"

definition download_success :: "string \<Rightarrow> string \<Rightarrow> json \<Rightarrow> pydict" where
  "download_success file_path media_type title =
     [(''success'', JBool True), (''file_path'', JStr file_path),
      (''media_type'', JStr media_type), (''title'', title), (''error'', JNull)]"

section \<open>tiktok.py\<close>

text \<open>\<^verbatim>\<open>/video/(\d+)\<close>\<close>

definition video_id_re :: pattern where
  "video_id_re = \<lparr>pre = [Lit ''/video/''], grp = [Plus is_digit], post = []\<rparr>"

text \<open>\<^verbatim>\<open><script id="SIGI_STATE"[^>]*>(.*?)</script>\<close>\<close>

definition sigi_state_re :: pattern where
  \<open>sigi_state_re =
     \<lparr>pre = [Lit ''<script id="SIGI_STATE"'', Star (not_char (CHR ''>'')), Lit ''>''],
      grp = [Lazy is_dot],
      post = [Lit ''</script>'']\<rparr>\<close>

record video_info =
  tk_video_id :: string
  tk_download_url :: json
  tk_title :: json

text \<open>
  \<open>TikTokDownloader._get_video_info\<close>, the statements of the inner \<open>try\<close> after
  \<open>json.loads\<close>: an exception here is not a \<open>JSONDecodeError\<close> and reaches the outer
  handler.
\<close>

definition tiktok_read_state :: "json \<Rightarrow> string \<Rightarrow> exn + video_info resolved" where
  "tiktok_read_state data video_id =
     try_bind (py_get data ''ItemModule'' (JObj [])) (\<lambda>item_module.
     try_bind (py_get item_module video_id (JObj [])) (\<lambda>video_data.
       if \<not> truthy video_data then Inr (Failed (NotFound ''Video data not found''))
       else
         try_bind (py_get video_data ''video'' (JObj [])) (\<lambda>video_obj.
         try_bind (py_get video_obj ''downloadAddr'' JNull) (\<lambda>download_addr.
         try_bind (if truthy download_addr then Inr download_addr
                   else py_get video_obj ''playAddr'' JNull) (\<lambda>download_url.
           if \<not> truthy download_url
           then Inr (Failed (NotFound ''Could not find video download URL''))
           else
             try_bind (py_get video_data ''desc'' (JStr ''TikTok Video'')) (\<lambda>title.
               Inr (Resolved \<lparr>tk_video_id = video_id, tk_download_url = download_url,
                               tk_title = title\<rparr>)))))))"

text \<open>\<open>TikTokDownloader._get_video_info\<close>, from the page text on.\<close>

definition tiktok_read_page :: "world \<Rightarrow> string \<Rightarrow> string \<Rightarrow> video_info resolved" where
  "tiktok_read_page w video_id content =
     (case re_search sigi_state_re content of
        None \<Rightarrow> Failed (NotFound ''Could not find video data in page'')
      | Some blob \<Rightarrow>
          (case json_loads w blob of
             Inl JSONDecodeError \<Rightarrow> Failed (ParseError ''Failed to parse video data'')
           | Inl e \<Rightarrow> Failed (Fault ''Failed to get video info: '' e)
           | Inr data \<Rightarrow>
               (case tiktok_read_state data video_id of
                  Inl e \<Rightarrow> Failed (Fault ''Failed to get video info: '' e)
                | Inr r \<Rightarrow> r)))"

text \<open>\<open>TikTokDownloader._get_video_info\<close>\<close>

definition tiktok_get_video_info :: "world \<Rightarrow> string \<Rightarrow> video_info resolved" where
  "tiktok_get_video_info w url =
     (case redirect_get w url of
        Inl e \<Rightarrow> Failed (Fault ''Failed to get video info: '' e)
      | Inr final_url \<Rightarrow>
          (case re_search video_id_re final_url of
             None \<Rightarrow> Failed (InvalidUrl ''Could not extract video ID from URL'')
           | Some video_id \<Rightarrow>
               (case page_get w final_url of
                  Inl e \<Rightarrow> Failed (Fault ''Failed to get video info: '' e)
                | Inr response \<Rightarrow>
                    if status response \<noteq> 200
                    then Failed (HttpError ''Failed to access TikTok page: HTTP '' (status response))
                    else (case body response of
                            Inl e \<Rightarrow> Failed (Fault ''Failed to get video info: '' e)
                          | Inr content \<Rightarrow> tiktok_read_page w video_id content))))"

text \<open>
  The statements every \<open>download\<close> method ends with, after the resolver has given the
  media URL and the method has chosen the file name, the media type and the ceiling:
  fetch the file, measure it, delete it if it is too large. \<open>label\<close> is the platform's
  name in the text of the \<open>except Exception\<close> handler around the whole method, which
  a cancellation passes by: then the method raises it and returns no dictionary.
\<close>

definition fetch_and_check ::
  "config \<Rightarrow> world \<Rightarrow> string \<Rightarrow> json \<Rightarrow> string \<Rightarrow> string \<Rightarrow> nat \<Rightarrow> json \<Rightarrow> fs
     \<Rightarrow> (fault + pydict) \<times> fs" where
  "fetch_and_check cfg w label media_url filename media_type size_limit title files =
     (case download_file cfg w media_url filename files of
        (Inl (Error e), files1) \<Rightarrow>
          (Inr (download_failure (label @ '' download failed: '' @ exn_str w e)), files1)
      | (Inl Cancelled, files1) \<Rightarrow> (Inl Cancelled, files1)
      | (Inr file_path, files1) \<Rightarrow>
          (case getsize files1 file_path of
             Inl e \<Rightarrow>
               (Inr (download_failure (label @ '' download failed: '' @ exn_str w e)), files1)
           | Inr file_size \<Rightarrow>
               if file_size > size_limit
               then (Inr (too_large file_size), cleanup_file file_path files1)
               else (Inr (download_success file_path media_type title), files1)))"

text \<open>\<open>TikTokDownloader.download\<close>\<close>

definition tiktok_download ::
  "config \<Rightarrow> world \<Rightarrow> string \<Rightarrow> fs \<Rightarrow> (fault + pydict) \<times> fs" where
  "tiktok_download cfg w url files =
     (case tiktok_get_video_info w url of
        Failed f \<Rightarrow> (Inr (info_failure w f), files)
      | Resolved video_info \<Rightarrow>
          fetch_and_check cfg w ''TikTok'' (tk_download_url video_info)
            (''tiktok_'' @ tk_video_id video_info @ ''.mp4'') ''video''
            (max_video_size cfg) (tk_title video_info) files)"

section \<open>instagram.py\<close>

text \<open>\<^verbatim>\<open>[A-Za-z0-9_-]\<close>\<close>

definition is_code_char :: "char \<Rightarrow> bool" where
  "is_code_char c =
     (c \<in> set ''ABCDEFGHIJKLMNOPQRSTUVWXYZabcdefghijklmnopqrstuvwxyz0123456789_-'')"

text \<open>\<^verbatim>\<open>/p/([A-Za-z0-9_-]+)\<close> and \<^verbatim>\<open>/reel/([A-Za-z0-9_-]+)\<close>\<close>

definition post_code_re :: pattern where
  "post_code_re = \<lparr>pre = [Lit ''/p/''], grp = [Plus is_code_char], post = []\<rparr>"

definition reel_code_re :: pattern where
  "reel_code_re = \<lparr>pre = [Lit ''/reel/''], grp = [Plus is_code_char], post = []\<rparr>"

text \<open>\<^verbatim>\<open>window\.__additionalDataLoaded\([^,]+,({.*?})\);\<close>\<close>

definition additional_data_re :: pattern where
  "additional_data_re =
     \<lparr>pre = [Lit ''window.__additionalDataLoaded('', Plus (not_char (CHR '','')), Lit '',''],
      grp = [Lit ''{'', Lazy is_dot, Lit ''}''],
      post = [Lit '');'']\<rparr>"

text \<open>\<^verbatim>\<open>"GraphImage"[^}]+display_url":"([^"]+)"\<close>\<close>

definition graph_image_re :: pattern where
  \<open>graph_image_re =
     \<lparr>pre = [Lit ''"GraphImage"'', Plus (not_char (CHR ''}'')), Lit ''display_url":"''],
      grp = [Plus (not_char (CHR 0x22))],
      post = [Lit ''"'']\<rparr>\<close>

text \<open>\<^verbatim>\<open>"GraphVideo"[^}]+video_url":"([^"]+)"\<close>\<close>

definition graph_video_re :: pattern where
  \<open>graph_video_re =
     \<lparr>pre = [Lit ''"GraphVideo"'', Plus (not_char (CHR ''}'')), Lit ''video_url":"''],
      grp = [Plus (not_char (CHR 0x22))],
      post = [Lit ''"'']\<rparr>\<close>

text \<open>
  The escape that \<open>replace\<close> turns into an ampersand: a backslash and the five
  characters \<open>u0026\<close>.
\<close>

definition amp_escape :: string where
  "amp_escape = CHR 0x5C # ''u0026''"

record media_info =
  ig_media_id :: string
  ig_media_url :: json
  ig_is_video :: json
  ig_caption :: json

text \<open>
  \<open>InstagramDownloader._get_media_info\<close>, the statements of the inner \<open>try\<close> after
  \<open>json.loads\<close>.
\<close>

definition instagram_read_data :: "json \<Rightarrow> string \<Rightarrow> exn + media_info resolved" where
  "instagram_read_data data shortcode =
     try_bind (py_get data ''graphql'' (JObj [])) (\<lambda>graphql.
     try_bind (py_get graphql ''shortcode_media'' (JObj [])) (\<lambda>media_data.
       if \<not> truthy media_data then Inr (Failed (NotFound ''Media data not found in response''))
       else
         try_bind (py_get media_data ''is_video'' (JBool False)) (\<lambda>is_video.
         try_bind (if truthy is_video then py_get media_data ''video_url'' JNull
                   else py_get media_data ''display_url'' JNull) (\<lambda>media_url.
           if \<not> truthy media_url then Inr (Failed (NotFound ''Could not find media URL''))
           else
             try_bind (py_get media_data ''edge_media_to_caption'' (JObj [])) (\<lambda>to_caption.
             try_bind (py_get to_caption ''edges'' (JArr [])) (\<lambda>edges.
             try_bind (if truthy edges
                       then try_bind (py_first edges) (\<lambda>edge.
                            try_bind (py_get edge ''node'' (JObj [])) (\<lambda>node.
                              py_get node ''text'' (JStr [])))
                       else Inr (JStr [])) (\<lambda>caption.
             try_bind (clip caption) (\<lambda>clipped.
               Inr (Resolved \<lparr>ig_media_id = shortcode, ig_media_url = media_url,
                               ig_is_video = is_video, ig_caption = clipped\<rparr>)))))))))"

text \<open>\<open>InstagramDownloader._get_media_info\<close>, from the page text on.\<close>

definition instagram_read_page :: "world \<Rightarrow> string \<Rightarrow> string \<Rightarrow> media_info resolved" where
  "instagram_read_page w shortcode content =
     (case re_search additional_data_re content of
        None \<Rightarrow>
          (case re_search graph_image_re content of
             Some g \<Rightarrow>
               Resolved \<lparr>ig_media_id = shortcode,
                         ig_media_url = JStr (py_replace amp_escape ''&'' g),
                         ig_is_video = JBool False, ig_caption = JStr ''Instagram Photo''\<rparr>
           | None \<Rightarrow>
               (case re_search graph_video_re content of
                  Some g \<Rightarrow>
                    Resolved \<lparr>ig_media_id = shortcode,
                              ig_media_url = JStr (py_replace amp_escape ''&'' g),
                              ig_is_video = JBool True, ig_caption = JStr ''Instagram Video''\<rparr>
                | None \<Rightarrow> Failed (NotFound ''Could not find media data in embed page'')))
      | Some blob \<Rightarrow>
          (case json_loads w blob of
             Inl JSONDecodeError \<Rightarrow> Failed (ParseError ''Failed to parse media data'')
           | Inl e \<Rightarrow> Failed (Fault ''Failed to get media info: '' e)
           | Inr data \<Rightarrow>
               (case instagram_read_data data shortcode of
                  Inl e \<Rightarrow> Failed (Fault ''Failed to get media info: '' e)
                | Inr r \<Rightarrow> r)))"

text \<open>\<open>InstagramDownloader._get_media_info\<close>\<close>

definition instagram_get_media_info :: "world \<Rightarrow> string \<Rightarrow> media_info resolved" where
  "instagram_get_media_info w url =
     (case (case re_search post_code_re url of
              None \<Rightarrow> re_search reel_code_re url
            | Some g \<Rightarrow> Some g) of
        None \<Rightarrow> Failed (InvalidUrl ''Could not extract media shortcode from URL'')
      | Some shortcode \<Rightarrow>
          (case page_get w (''https://www.instagram.com/p/'' @ shortcode @ ''/embed/'') of
             Inl e \<Rightarrow> Failed (Fault ''Failed to get media info: '' e)
           | Inr response \<Rightarrow>
               if status response \<noteq> 200
               then Failed (HttpError ''Failed to access Instagram embed: HTTP '' (status response))
               else (case body response of
                       Inl e \<Rightarrow> Failed (Fault ''Failed to get media info: '' e)
                     | Inr content \<Rightarrow> instagram_read_page w shortcode content)))"

text \<open>\<open>InstagramDownloader.download\<close>\<close>

definition instagram_download ::
  "config \<Rightarrow> world \<Rightarrow> string \<Rightarrow> fs \<Rightarrow> (fault + pydict) \<times> fs" where
  "instagram_download cfg w url files =
     (case instagram_get_media_info w url of
        Failed f \<Rightarrow> (Inr (info_failure w f), files)
      | Resolved media_info \<Rightarrow>
          if truthy (ig_is_video media_info)
          then fetch_and_check cfg w ''Instagram'' (ig_media_url media_info)
                 (''instagram_'' @ ig_media_id media_info @ ''.mp4'') ''video''
                 (max_video_size cfg) (ig_caption media_info) files
          else fetch_and_check cfg w ''Instagram'' (ig_media_url media_info)
                 (''instagram_'' @ ig_media_id media_info @ ''.jpg'') ''photo''
                 (max_photo_size cfg) (ig_caption media_info) files)"

section \<open>pinterest.py\<close>

text \<open>\<^verbatim>\<open>/pin/(\d+)\<close>\<close>

definition pin_id_re :: pattern where
  "pin_id_re = \<lparr>pre = [Lit ''/pin/''], grp = [Plus is_digit], post = []\<rparr>"

text \<open>\<^verbatim>\<open><script[^>]*>([^<]*)</script>\<close>\<close>

definition script_re :: pattern where
  "script_re =
     \<lparr>pre = [Lit ''<script'', Star (not_char (CHR ''>'')), Lit ''>''],
      grp = [Star (not_char (CHR ''<''))],
      post = [Lit ''</script>'']\<rparr>"

text \<open>\<^verbatim>\<open>\{[^}]*"images"[^}]*\}\<close>, which has no group.\<close>

definition images_re :: pattern where
  \<open>images_re =
     \<lparr>pre = [Lit ''{'', Star (not_char (CHR ''}'')), Lit ''"images"'',
             Star (not_char (CHR ''}'')), Lit ''}''],
      grp = [],
      post = []\<rparr>\<close>

text \<open>\<^verbatim>\<open>"url":\s*"([^"]+\.(?:jpg|jpeg|png|mp4|webm)[^"]*)"\<close>\<close>

definition media_url_re :: pattern where
  \<open>media_url_re =
     \<lparr>pre = [Lit ''"url":'', Star is_space, Lit ''"''],
      grp = [Plus (not_char (CHR 0x22)), Lit ''.'',
             Alt [''jpg'', ''jpeg'', ''png'', ''mp4'', ''webm''], Star (not_char (CHR 0x22))],
      post = [Lit ''"'']\<rparr>\<close>

text \<open>\<^verbatim>\<open>"title":\s*"([^"]*)"\<close>\<close>

definition title_re :: pattern where
  \<open>title_re =
     \<lparr>pre = [Lit ''"title":'', Star is_space, Lit ''"''],
      grp = [Star (not_char (CHR 0x22))],
      post = [Lit ''"'']\<rparr>\<close>

text \<open>\<^verbatim>\<open><meta property="og:image" content="([^"]+)"\<close>\<close>

definition og_image_re :: pattern where
  \<open>og_image_re =
     \<lparr>pre = [Lit ''<meta property="og:image" content="''],
      grp = [Plus (not_char (CHR 0x22))],
      post = [Lit ''"'']\<rparr>\<close>

record pin_info =
  pin_id :: string
  pin_media_url :: string
  pin_is_video :: bool
  pin_title :: string

text \<open>The test that opens the body of the loop over the scripts.\<close>

definition has_pin_marker :: "string \<Rightarrow> bool" where
  \<open>has_pin_marker script = (contains ''pinterestapp:pins'' script \<or> contains ''"Pin"'' script)\<close>

text \<open>
  \<open>PinterestDownloader._get_pin_info\<close>, the body of the loop for one script: what it
  returns, or \<open>None\<close> when the loop goes on to the next script.
\<close>

definition read_script :: "string \<Rightarrow> string \<Rightarrow> pin_info option" where
  "read_script pin script =
     (if has_pin_marker script
      then (case re_search images_re script of
              None \<Rightarrow> None
            | Some json_match \<Rightarrow>
                (case re_search media_url_re script of
                   None \<Rightarrow> None
                 | Some g \<Rightarrow>
                     let media_url = py_replace (CHR 0x5C # ''/'') ''/'' g;
                         is_video = list_ex (\<lambda>ext. contains ext (lower media_url))
                                      [''.mp4'', ''.webm''];
                         title = (case re_search title_re script of
                                    Some t \<Rightarrow> t
                                  | None \<Rightarrow> ''Pinterest Media'')
                     in Some \<lparr>pin_id = pin, pin_media_url = media_url, pin_is_video = is_video,
                              pin_title = (if length title > 100 then take 100 title @ ''...''
                                           else title)\<rparr>))
      else None)"

text \<open>The loop over the scripts.\<close>

fun scan_scripts :: "string \<Rightarrow> string list \<Rightarrow> pin_info option" where
  "scan_scripts pin [] = None"
| "scan_scripts pin (script # rest) =
     (case read_script pin script of
        Some info \<Rightarrow> Some info
      | None \<Rightarrow> scan_scripts pin rest)"

text \<open>\<open>PinterestDownloader._get_pin_info\<close>, from the page text on.\<close>

definition pinterest_read_page :: "string \<Rightarrow> string \<Rightarrow> pin_info resolved" where
  "pinterest_read_page pin content =
     (case scan_scripts pin (re_findall script_re content) of
        Some info \<Rightarrow> Resolved info
      | None \<Rightarrow>
          (case re_search og_image_re content of
             Some media_url \<Rightarrow>
               Resolved \<lparr>pin_id = pin, pin_media_url = media_url, pin_is_video = False,
                         pin_title = ''Pinterest Image''\<rparr>
           | None \<Rightarrow> Failed (NotFound ''Could not find media data in Pinterest page'')))"

text \<open>\<open>PinterestDownloader._get_pin_info\<close>\<close>

definition pinterest_get_pin_info :: "world \<Rightarrow> string \<Rightarrow> pin_info resolved" where
  "pinterest_get_pin_info w url0 =
     (case (if contains ''pin.it'' url0 then redirect_get w url0 else Inr url0) of
        Inl e \<Rightarrow> Failed (Fault ''Failed to get pin info: '' e)
      | Inr url \<Rightarrow>
          (case re_search pin_id_re url of
             None \<Rightarrow> Failed (InvalidUrl ''Could not extract pin ID from URL'')
           | Some pin \<Rightarrow>
               (case page_get w url of
                  Inl e \<Rightarrow> Failed (Fault ''Failed to get pin info: '' e)
                | Inr response \<Rightarrow>
                    if status response \<noteq> 200
                    then Failed (HttpError ''Failed to access Pinterest page: HTTP ''
                                   (status response))
                    else (case body response of
                            Inl e \<Rightarrow> Failed (Fault ''Failed to get pin info: '' e)
                          | Inr content \<Rightarrow> pinterest_read_page pin content))))"

text \<open>\<open>PinterestDownloader.download\<close>\<close>

definition pinterest_download ::
  "config \<Rightarrow> world \<Rightarrow> string \<Rightarrow> fs \<Rightarrow> (fault + pydict) \<times> fs" where
  "pinterest_download cfg w url files =
     (case pinterest_get_pin_info w url of
        Failed f \<Rightarrow> (Inr (info_failure w f), files)
      | Resolved pin_info \<Rightarrow>
          let media_url = pin_media_url pin_info in
          if pin_is_video pin_info
          then fetch_and_check cfg w ''Pinterest'' (JStr media_url)
                 (''pinterest_'' @ pin_id pin_info @ ''.mp4'') ''video''
                 (max_video_size cfg) (JStr (pin_title pin_info)) files
          else
            let ext = (if contains ''.jpg'' (lower media_url) \<or> contains ''.jpeg'' (lower media_url)
                       then ''jpg''
                       else if contains ''.png'' (lower media_url) then ''png''
                       else ''jpg'')
            in fetch_and_check cfg w ''Pinterest'' (JStr media_url)
                 (''pinterest_'' @ pin_id pin_info @ ''.'' @ ext) ''photo''
                 (max_photo_size cfg) (JStr (pin_title pin_info)) files)"

section \<open>Notions used in the statements\<close>

text \<open>A URL up to its first \<open>?\<close> or \<open>#\<close>.\<close>

definition url_stem :: "string \<Rightarrow> string" where
  "url_stem url = takeWhile (\<lambda>c. c \<noteq> CHR ''?'' \<and> c \<noteq> CHR ''#'') url"

text \<open>
  The payload the media request delivers into the file at \<open>path\<close>: the chunks of a
  response with status 200 whose loop ends without a fault, in a file that opens;
  \<open>None\<close> when the request, the status, the opening or the loop fails or is
  cancelled.
\<close>

definition delivered :: "world \<Rightarrow> json \<Rightarrow> string \<Rightarrow> string option" where
  "delivered w url path =
     (case request_media w url of
        Inl e \<Rightarrow> None
      | Inr response \<Rightarrow>
          if media_status response = 200 \<and> open_wb w path = None
             \<and> stream_fault response = None
          then Some (concat (chunks response)) else None)"

text \<open>
  The media request or the loop that writes the file at \<open>path\<close> is cancelled, and
  the files the body of the \<open>try\<close> has left by then: the files as they were when
  the request is cancelled, the file with the chunks written so far when the loop is.
\<close>

definition cancelled :: "world \<Rightarrow> json \<Rightarrow> string \<Rightarrow> bool" where
  "cancelled w url path =
     (case request_media w url of
        Inl f \<Rightarrow> f = Cancelled
      | Inr response \<Rightarrow>
          media_status response = 200 \<and> open_wb w path = None
          \<and> stream_fault response = Some Cancelled)"

definition left_by_cancellation :: "world \<Rightarrow> json \<Rightarrow> string \<Rightarrow> fs \<Rightarrow> fs" where
  "left_by_cancellation w url path files =
     (case request_media w url of
        Inl f \<Rightarrow> files
      | Inr response \<Rightarrow> files(path \<mapsto> concat (chunks response)))"

text \<open>The entries of a result dictionary.\<close>

definition succeeded :: "pydict \<Rightarrow> bool" where
  "succeeded d = (map_of d ''success'' = Some (JBool True))"

definition failed :: "pydict \<Rightarrow> bool" where
  "failed d = (map_of d ''success'' = Some (JBool False))"

definition filled :: "pydict \<Rightarrow> string \<Rightarrow> bool" where
  "filled d k = (case map_of d k of Some (JStr m) \<Rightarrow> m \<noteq> [] | _ \<Rightarrow> False)"

definition unfilled :: "pydict \<Rightarrow> string \<Rightarrow> bool" where
  "unfilled d k = (case map_of d k of None \<Rightarrow> True | Some v \<Rightarrow> v = JNull)"

definition well_formed :: "pydict \<Rightarrow> bool" where
  "well_formed d =
     (if succeeded d
      then filled d ''file_path'' \<and> filled d ''media_type'' \<and> unfilled d ''error''
      else failed d \<and> filled d ''error'' \<and> unfilled d ''file_path''
           \<and> unfilled d ''media_type'')"

text \<open>
  The path at which each \<open>download\<close> stores the file of a resolved medium, and the
  ceiling it compares the size with.
\<close>

definition tiktok_target :: "config \<Rightarrow> video_info \<Rightarrow> string" where
  "tiktok_target cfg info =
     path_join (download_dir cfg) (''tiktok_'' @ tk_video_id info @ ''.mp4'')"

definition instagram_target :: "config \<Rightarrow> media_info \<Rightarrow> string" where
  "instagram_target cfg info =
     path_join (download_dir cfg)
       (''instagram_'' @ ig_media_id info
          @ (if truthy (ig_is_video info) then ''.mp4'' else ''.jpg''))"

definition instagram_limit :: "config \<Rightarrow> media_info \<Rightarrow> nat" where
  "instagram_limit cfg info =
     (if truthy (ig_is_video info) then max_video_size cfg else max_photo_size cfg)"

definition pinterest_suffix :: "pin_info \<Rightarrow> string" where
  "pinterest_suffix info =
     (if pin_is_video info then ''.mp4''
      else if contains ''.jpg'' (lower (pin_media_url info))
              \<or> contains ''.jpeg'' (lower (pin_media_url info)) then ''.jpg''
      else if contains ''.png'' (lower (pin_media_url info)) then ''.png''
      else ''.jpg'')"

definition pinterest_target :: "config \<Rightarrow> pin_info \<Rightarrow> string" where
  "pinterest_target cfg info =
     path_join (download_dir cfg) (''pinterest_'' @ pin_id info @ pinterest_suffix info)"

definition pinterest_limit :: "config \<Rightarrow> pin_info \<Rightarrow> nat" where
  "pinterest_limit cfg info =
     (if pin_is_video info then max_video_size cfg else max_photo_size cfg)"

section \<open>Fixtures\<close>

text \<open>
  A world for examples: no redirect, every page request answered with status 200 and
  the same text, every media request with the same response, files that open.
\<close>

definition fixture :: "string \<Rightarrow> (string \<Rightarrow> exn + json) \<Rightarrow> media_response \<Rightarrow> world" where
  "fixture page loads media =
     \<lparr>redirect_get = Inr,
      page_get = (\<lambda>u. Inr \<lparr>status = 200, body = Inr page\<rparr>),
      media_get = (\<lambda>u. Inr media),
      open_wb = (\<lambda>p. None),
      json_loads = loads,
      builtin_text = (\<lambda>e. ''internal error'')\<rparr>"

definition payload_of :: "string list \<Rightarrow> media_response" where
  "payload_of cs = \<lparr>media_status = 200, chunks = cs, stream_fault = None\<rparr>"

definition not_found_response :: media_response where
  "not_found_response = \<lparr>media_status = 404, chunks = [], stream_fault = None\<rparr>"

definition broken_response :: media_response where
  "broken_response =
     \<lparr>media_status = 200, chunks = [''abcd'', ''ef''],
      stream_fault = Some (Error (Exception ''Connection reset''))\<rparr>"

definition cancelled_response :: media_response where
  "cancelled_response =
     \<lparr>media_status = 200, chunks = [''abcd'', ''ef''], stream_fault = Some Cancelled\<rparr>"

definition small_config :: config where
  "small_config = \<lparr>download_dir = ''downloads'', max_video_size = 8, max_photo_size = 4\<rparr>"

definition no_json :: "string \<Rightarrow> exn + json" where
  "no_json s = Inl JSONDecodeError"

text \<open>A failure whose text is not empty.\<close>

definition worded :: "failure \<Rightarrow> bool" where
  "worded f =
     (case f of
        InvalidUrl m \<Rightarrow> m \<noteq> []
      | HttpError m c \<Rightarrow> m \<noteq> []
      | NotFound m \<Rightarrow> m \<noteq> []
      | ParseError m \<Rightarrow> m \<noteq> []
      | Fault m e \<Rightarrow> m \<noteq> [])"

text \<open>Pages and texts for examples.\<close>

definition photo_page :: string where
  \<open>photo_page = ''"GraphImage","display_url":"https://i.example/a.jpg"''\<close>

definition photo_info :: media_info where
  "photo_info =
     \<lparr>ig_media_id = ''Cx1'', ig_media_url = JStr ''https://i.example/a.jpg'',
      ig_is_video = JBool False, ig_caption = JStr ''Instagram Photo''\<rparr>"

text \<open>
  The shortcode and the text of the embed page, when \<open>_get_media_info\<close> gets as far
  as reading the page: a shortcode in the URL, an answer with status 200, a text.
\<close>

definition instagram_embed_page :: "world \<Rightarrow> string \<Rightarrow> (string \<times> string) option" where
  "instagram_embed_page w url =
     (case (case re_search post_code_re url of
              None \<Rightarrow> re_search reel_code_re url
            | Some g \<Rightarrow> Some g) of
        None \<Rightarrow> None
      | Some shortcode \<Rightarrow>
          (case page_get w (''https://www.instagram.com/p/'' @ shortcode @ ''/embed/'') of
             Inl e \<Rightarrow> None
           | Inr response \<Rightarrow>
               if status response = 200
               then (case body response of Inl e \<Rightarrow> None | Inr content \<Rightarrow> Some (shortcode, content))
               else None))"

definition video_page :: string where
  \<open>video_page =
     ''"GraphVideo","video_url":"https://v.example/a.mp4?x=1'' @ amp_escape @ ''y=2"''\<close>

text \<open>
  A text cut to its first 100 characters with an ellipsis appended when it is longer,
  unchanged otherwise.
\<close>

definition ellipsize :: "string \<Rightarrow> string" where
  "ellipsize s = (if 100 < length s then take 100 s @ ''...'' else s)"

text \<open>The entry of an object under a key.\<close>

definition member :: "json \<Rightarrow> string \<Rightarrow> json option" where
  "member v k = (case v of JObj kvs \<Rightarrow> map_of kvs k | _ \<Rightarrow> None)"

text \<open>
  The caption a decoded embed object carries: the \<open>text\<close> of the \<open>node\<close> of the first
  of the \<open>edges\<close> of \<open>edge_media_to_caption\<close> in \<open>graphql.shortcode_media\<close>, the empty
  text when there are no edges.
\<close>

definition caption_text :: "json \<Rightarrow> string option" where
  "caption_text data =
     (case member data ''graphql'' of
        None \<Rightarrow> None
      | Some graphql \<Rightarrow>
          (case member graphql ''shortcode_media'' of
             None \<Rightarrow> None
           | Some media_data \<Rightarrow>
               (case member media_data ''edge_media_to_caption'' of
                  None \<Rightarrow> Some []
                | Some to_caption \<Rightarrow>
                    (case member to_caption ''edges'' of
                       None \<Rightarrow> Some []
                     | Some (JArr []) \<Rightarrow> Some []
                     | Some (JArr (edge # others)) \<Rightarrow>
                         (case member edge ''node'' of
                            None \<Rightarrow> None
                          | Some node \<Rightarrow>
                              (case member node ''text'' of
                                 Some (JStr c) \<Rightarrow> Some c
                               | _ \<Rightarrow> None))
                     | _ \<Rightarrow> None))))"

text \<open>The title a script carries for Pinterest, or the placeholder.\<close>

definition script_title :: "string \<Rightarrow> string" where
  "script_title script =
     (case re_search title_re script of Some t \<Rightarrow> t | None \<Rightarrow> ''Pinterest Media'')"

text \<open>A caption of 104 characters and a decoded embed object that carries it.\<close>

definition long_caption :: string where
  "long_caption = concat (replicate 13 ''Sunrise '')"

definition captioned_data :: json where
  "captioned_data =
     JObj [(''graphql'', JObj [(''shortcode_media'', JObj
       [(''is_video'', JBool False),
        (''display_url'', JStr ''https://i.example/a.jpg''),
        (''edge_media_to_caption'', JObj [(''edges'', JArr
           [JObj [(''node'', JObj [(''text'', JStr long_caption)])]])])])])]"

definition captioned_blob :: string where
  \<open>captioned_blob =
     ''{"graphql":{"shortcode_media":{"is_video":false,''
     @ ''"display_url":"https://i.example/a.jpg",''
     @ ''"edge_media_to_caption":{"edges":[{"node":{"text":"'' @ long_caption @ ''"}}]}}}}''\<close>

definition captioned_page :: string where
  "captioned_page = ''window.__additionalDataLoaded(1,'' @ captioned_blob @ '');''"

definition captioned_loads :: "string \<Rightarrow> exn + json" where
  "captioned_loads s = (if s = captioned_blob then Inr captioned_data else Inl JSONDecodeError)"

text \<open>A script of a pin page with a title, and the page that holds it.\<close>

definition pin_script :: string where
  \<open>pin_script =
     ''{"type":"Pin","images":1} "url": "https://i.pinimg.com/a.jpg?x=1", "title": "Sea"''\<close>

definition pin_page :: string where
  "pin_page = ''<html><script>var a = 1;</script><script>'' @ pin_script @ ''</script></html>''"

text \<open>A script whose title has 104 characters, and the page that holds it.\<close>

definition long_pin_script :: string where
  \<open>long_pin_script =
     ''{"type":"Pin","images":1} "url": "https://i.pinimg.com/a.jpg?x=1", "title": "''
     @ long_caption @ ''"''\<close>

definition long_pin_page :: string where
  "long_pin_page =
     ''<html><script>var a = 1;</script><script>'' @ long_pin_script @ ''</script></html>''"

text \<open>
  The video id and the text of the page, when \<open>TikTokDownloader._get_video_info\<close>
  gets as far as reading the page: a final URL with an id, an answer with status 200,
  a text.
\<close>

definition tiktok_page :: "world \<Rightarrow> string \<Rightarrow> (string \<times> string) option" where
  "tiktok_page w url =
     (case redirect_get w url of
        Inl e \<Rightarrow> None
      | Inr final_url \<Rightarrow>
          (case re_search video_id_re final_url of
             None \<Rightarrow> None
           | Some video_id \<Rightarrow>
               (case page_get w final_url of
                  Inl e \<Rightarrow> None
                | Inr response \<Rightarrow>
                    if status response = 200
                    then (case body response of
                            Inl e \<Rightarrow> None
                          | Inr content \<Rightarrow> Some (video_id, content))
                    else None)))"

definition is_object :: "json \<Rightarrow> bool" where
  "is_object v = (case v of JObj kvs \<Rightarrow> True | _ \<Rightarrow> False)"

text \<open>A value that is missing, or empty as \<open>not v\<close> tests it.\<close>

definition absent_or_empty :: "json option \<Rightarrow> bool" where
  "absent_or_empty x = (case x of None \<Rightarrow> True | Some v \<Rightarrow> \<not> truthy v)"

text \<open>
  The decoded state is an object with no entry for the video id: its \<open>ItemModule\<close>
  is missing, or is an object in which the id is missing or has an empty value.
\<close>

definition lacks_item :: "json \<Rightarrow> string \<Rightarrow> bool" where
  "lacks_item data video_id =
     (is_object data
      \<and> (case member data ''ItemModule'' of
            None \<Rightarrow> True
          | Some item_module \<Rightarrow>
              is_object item_module \<and> absent_or_empty (member item_module video_id)))"

text \<open>
  The decoded state has a non-empty object as the entry for the video id, and the
  entry has no address: its \<open>video\<close> is missing, or is an object in which both
  \<open>downloadAddr\<close> and \<open>playAddr\<close> are missing or empty.
\<close>

definition lacks_addresses :: "json \<Rightarrow> string \<Rightarrow> bool" where
  "lacks_addresses data video_id =
     (case member data ''ItemModule'' of
        None \<Rightarrow> False
      | Some item_module \<Rightarrow>
          (case member item_module video_id of
             None \<Rightarrow> False
           | Some entry \<Rightarrow>
               is_object entry \<and> truthy entry
               \<and> (case member entry ''video'' of
                     None \<Rightarrow> True
                   | Some video \<Rightarrow>
                       is_object video \<and> absent_or_empty (member video ''downloadAddr'')
                       \<and> absent_or_empty (member video ''playAddr''))))"

text \<open>
  The decoded state does not have the shape the resolver reads: the state, its
  \<open>ItemModule\<close>, a non-empty entry for the video id or the \<open>video\<close> of the entry
  is there and is not an object.
\<close>

definition misshapen :: "json \<Rightarrow> string \<Rightarrow> bool" where
  "misshapen data video_id =
     (\<not> is_object data
      \<or> (case member data ''ItemModule'' of
            None \<Rightarrow> False
          | Some item_module \<Rightarrow>
              \<not> is_object item_module
              \<or> (case member item_module video_id of
                    None \<Rightarrow> False
                  | Some entry \<Rightarrow>
                      truthy entry
                      \<and> (\<not> is_object entry
                           \<or> (case member entry ''video'' of
                                 None \<Rightarrow> False
                               | Some video \<Rightarrow> \<not> is_object video)))))"

text \<open>Pages of a TikTok video and what their embedded states decode to.\<close>

definition null_video_blob :: string where
  \<open>null_video_blob = ''{"ItemModule":{"7":{"video":null}}}''\<close>

definition null_video_page :: string where
  \<open>null_video_page = ''<script id="SIGI_STATE">'' @ null_video_blob @ ''</script>''\<close>

definition null_video_loads :: "string \<Rightarrow> exn + json" where
  "null_video_loads s =
     (if s = null_video_blob
      then Inr (JObj [(''ItemModule'', JObj [(''7'', JObj [(''video'', JNull)])])])
      else Inl JSONDecodeError)"

definition other_video_blob :: string where
  \<open>other_video_blob = ''{"ItemModule":{"8":{"video":{"playAddr":"https://v.example/8"}}}}''\<close>

definition other_video_page :: string where
  \<open>other_video_page = ''<script id="SIGI_STATE">'' @ other_video_blob @ ''</script>''\<close>

definition other_video_loads :: "string \<Rightarrow> exn + json" where
  "other_video_loads s =
     (if s = other_video_blob
      then Inr (JObj [(''ItemModule'', JObj [(''8'', JObj [(''video'',
                   JObj [(''playAddr'', JStr ''https://v.example/8'')])])])])
      else Inl JSONDecodeError)"

text \<open>
  The pin id and the text of the page, when \<open>PinterestDownloader._get_pin_info\<close>
  gets as far as reading the page.
\<close>

definition pinterest_page :: "world \<Rightarrow> string \<Rightarrow> (string \<times> string) option" where
  "pinterest_page w url0 =
     (case (if contains ''pin.it'' url0 then redirect_get w url0 else Inr url0) of
        Inl e \<Rightarrow> None
      | Inr url \<Rightarrow>
          (case re_search pin_id_re url of
             None \<Rightarrow> None
           | Some pin \<Rightarrow>
               (case page_get w url of
                  Inl e \<Rightarrow> None
                | Inr response \<Rightarrow>
                    if status response = 200
                    then (case body response of
                            Inl e \<Rightarrow> None
                          | Inr content \<Rightarrow> Some (pin, content))
                    else None)))"

text \<open>
  A script the loop returns from: it holds a pin marker, a brace block with
  \<open>"images"\<close> in it, and a match of the media URL pattern.
\<close>

definition script_yields :: "string \<Rightarrow> bool" where
  "script_yields script =
     (has_pin_marker script \<and> re_search images_re script \<noteq> None
      \<and> re_search media_url_re script \<noteq> None)"

text \<open>The extensions of the media URL pattern.\<close>

definition media_extensions :: "string list" where
  "media_extensions = [''jpg'', ''jpeg'', ''png'', ''mp4'', ''webm'']"

text \<open>
  A pin page whose only script holds a pin marker and a media URL and no \<open>"images"\<close>
  block, and a pin page with an Open Graph image and no script.
\<close>

definition bare_pin_script :: string where
  \<open>bare_pin_script = ''{"type":"Pin","url":"https://i.pinimg.com/a.jpg"}''\<close>

definition bare_pin_page :: string where
  "bare_pin_page = ''<script>'' @ bare_pin_script @ ''</script>''"

definition og_pin_page :: string where
  \<open>og_pin_page = ''<meta property="og:image" content="https://i.pinimg.com/b.png">''\<close>

section \<open>Properties\<close>

subsection \<open>Text\<close>

lemma contains_iff_sublist: "contains sub s = sublist sub s"
  by (induction s) (auto simp: sublist_Cons_right)

lemma py_replace_first_prefix:
  "old \<noteq> [] \<Longrightarrow> prefix old s \<Longrightarrow> py_replace_first old new s = new @ drop (length old) s"
  by (cases s) auto

lemma split_head_twice:
  "split_head (CHR ''#'') (split_head (CHR ''?'') url)
     = takeWhile (\<lambda>c. c \<noteq> CHR ''?'' \<and> c \<noteq> CHR ''#'') url"
  unfolding split_head_def by (induction url) auto

lemma url_stem_clean: "CHR ''?'' \<notin> set (url_stem url) \<and> CHR ''#'' \<notin> set (url_stem url)"
  unfolding url_stem_def by (auto dest: set_takeWhileD)

subsection \<open>The classifier\<close>

text \<open>
  C5, as amended. \<open>extract_platform\<close> returns the tag of the first platform, in the
  order youtube, tiktok, instagram, pinterest, one of whose texts occurs anywhere in
  the lowercased URL string, and \<open>None\<close> exactly when none of the texts of any
  platform occurs in it. The texts are searched in the whole string, so they do not
  exclude one another: a URL that holds the texts of several platforms gets the tag of
  the earliest of them.
\<close>

theorem extract_platform_first_match:
  "extract_platform url = map_option fst (find (\<lambda>(tag, ds). mentions ds url) platform_table)
   \<and> (extract_platform url = None) = (\<forall>(tag, ds) \<in> set platform_table. \<not> mentions ds url)"
  by (simp add: extract_platform_def platform_table_def mentions_def contains_iff_sublist Let_def)

theorem extract_platform_first_match_witness:
  "extract_platform ''https://vm.tiktok.com/ZMabc/'' = Some ''tiktok''
   \<and> map_option fst (find (\<lambda>(tag, ds). mentions ds ''https://vm.tiktok.com/ZMabc/'') platform_table)
       = Some ''tiktok''
   \<and> \<not> (\<forall>(tag, ds) \<in> set platform_table. \<not> mentions ds ''https://vm.tiktok.com/ZMabc/'')"
proof -
  have tag: "extract_platform ''https://vm.tiktok.com/ZMabc/'' = Some ''tiktok''"
    by code_simp
  with extract_platform_first_match [of "''https://vm.tiktok.com/ZMabc/''"]
  show ?thesis by simp
qed

text \<open>
  C5 as stated fails: the URL of a TikTok video of the account \<open>@youtube.com\<close> holds
  TikTok's domain, and the classifier answers \<open>youtube\<close>.
\<close>

theorem extract_platform_counterexample:
  "sublist ''tiktok.com'' (lower ''https://www.tiktok.com/@youtube.com/video/7'')
   \<and> extract_platform ''https://www.tiktok.com/@youtube.com/video/7'' = Some ''youtube''"
  by code_simp

subsection \<open>Normalisation\<close>

text \<open>
  C7. \<open>normalize_url\<close> maps \<open>http://x/y?z=1#f\<close> to \<open>https://x/y\<close>. For every URL
  the result starts with \<open>https://\<close>, holds neither \<open>?\<close> nor \<open>#\<close>, and is
  \<open>https://\<close> followed by the URL cut at its first \<open>?\<close> or \<open>#\<close>, without its
  \<open>http://\<close> or \<open>https://\<close> if it starts with one.
\<close>

theorem normalize_url_strips_and_forces_https:
  "normalize_url ''http://x/y?z=1#f'' = ''https://x/y''
   \<and> prefix ''https://'' (normalize_url url)
   \<and> CHR ''?'' \<notin> set (normalize_url url) \<and> CHR ''#'' \<notin> set (normalize_url url)
   \<and> normalize_url url =
         ''https://'' @ (if prefix ''http://'' (url_stem url) then drop 7 (url_stem url)
                         else if prefix ''https://'' (url_stem url) then drop 8 (url_stem url)
                         else url_stem url)"
proof -
  have ex: "normalize_url ''http://x/y?z=1#f'' = ''https://x/y''"
    by code_simp
  have eq: "normalize_url url =
         ''https://'' @ (if prefix ''http://'' (url_stem url) then drop 7 (url_stem url)
                         else if prefix ''https://'' (url_stem url) then drop 8 (url_stem url)
                         else url_stem url)"
    by (auto simp: normalize_url_def split_head_twice url_stem_def [symmetric]
          py_replace_first_prefix prefix_def)
  have clean: "CHR ''?'' \<notin> set (normalize_url url) \<and> CHR ''#'' \<notin> set (normalize_url url)"
    using url_stem_clean [of url] by (auto simp: eq dest: in_set_dropD)
  from ex eq clean show ?thesis by (simp add: eq)
qed

theorem normalize_url_strips_and_forces_https_witness:
  "normalize_url ''www.example.com/a#top?x'' = ''https://www.example.com/a''
   \<and> prefix ''https://'' (normalize_url ''www.example.com/a#top?x'')"
proof -
  have "normalize_url ''www.example.com/a#top?x'' = ''https://www.example.com/a''"
    by code_simp
  with normalize_url_strips_and_forces_https [of "''www.example.com/a#top?x''"]
  show ?thesis by simp
qed

subsection \<open>Storing the file\<close>

lemma remove_if_exists_eq: "remove_if_exists p files = files(p := None)"
  by (auto simp: remove_if_exists_def)

lemma write_chunks_eq:
  "files p = Some old \<Longrightarrow> write_chunks p cs files = files(p \<mapsto> old @ concat cs)"
  by (induction cs arbitrary: files old) (auto simp: fun_upd_idem)

lemma delivered_not_cancelled:
  "delivered w url path = Some payload \<Longrightarrow> \<not> cancelled w url path"
  by (auto simp: delivered_def cancelled_def split: sum.splits if_splits)

lemma download_file_delivered:
  "delivered w url (path_join (download_dir cfg) filename) = Some payload \<Longrightarrow>
   download_file cfg w url filename files
     = (Inr (path_join (download_dir cfg) filename),
        files(path_join (download_dir cfg) filename \<mapsto> payload))"
  by (auto simp: delivered_def download_file_def Let_def write_chunks_eq
           split: sum.splits if_splits option.splits)

lemma download_file_cancelled:
  "cancelled w url (path_join (download_dir cfg) filename) \<Longrightarrow>
   download_file cfg w url filename files
     = (Inl Cancelled,
        left_by_cancellation w url (path_join (download_dir cfg) filename) files)"
  by (auto simp: cancelled_def left_by_cancellation_def download_file_def Let_def
                 write_chunks_eq
           split: sum.splits if_splits option.splits fault.splits)

lemma download_file_failed:
  "delivered w url (path_join (download_dir cfg) filename) = None \<Longrightarrow>
   \<not> cancelled w url (path_join (download_dir cfg) filename) \<Longrightarrow>
   \<exists>e. download_file cfg w url filename files
     = (Inl (Error e), files(path_join (download_dir cfg) filename := None))"
  by (auto simp: delivered_def cancelled_def download_file_def Let_def write_chunks_eq
                 remove_if_exists_eq
           split: sum.splits if_splits option.splits fault.splits)

lemma fetch_and_check_delivered:
  "delivered w url (path_join (download_dir cfg) filename) = Some payload \<Longrightarrow>
   fetch_and_check cfg w label url filename media_type limit title files =
     (if length payload > limit
      then (Inr (too_large (length payload)),
            files(path_join (download_dir cfg) filename := None))
      else (Inr (download_success (path_join (download_dir cfg) filename) media_type title),
            files(path_join (download_dir cfg) filename \<mapsto> payload)))"
  by (simp add: fetch_and_check_def download_file_delivered getsize_def cleanup_file_def
        remove_if_exists_eq)

lemma fetch_and_check_cancelled:
  "cancelled w url (path_join (download_dir cfg) filename) \<Longrightarrow>
   fetch_and_check cfg w label url filename media_type limit title files =
     (Inl Cancelled, left_by_cancellation w url (path_join (download_dir cfg) filename) files)"
  by (simp add: fetch_and_check_def download_file_cancelled)

lemma fetch_and_check_failed:
  "delivered w url (path_join (download_dir cfg) filename) = None \<Longrightarrow>
   \<not> cancelled w url (path_join (download_dir cfg) filename) \<Longrightarrow>
   \<exists>e. fetch_and_check cfg w label url filename media_type limit title files =
     (Inr (download_failure (label @ '' download failed: '' @ exn_str w e)),
      files(path_join (download_dir cfg) filename := None))"
  using download_file_failed [of w url cfg filename files]
  by (auto simp: fetch_and_check_def)

lemma succeeded_simps:
  "succeeded (download_success p m t)" "\<not> succeeded (download_failure msg)"
  "\<not> succeeded (too_large n)" "\<not> succeeded (info_failure w f)"
  by (simp_all add: succeeded_def download_success_def download_failure_def too_large_def
        info_failure_def)

text \<open>
  The three ways \<open>fetch_and_check\<close> ends: with the payload on disk or rejected for
  its size, with the failure of an \<open>Exception\<close>, or raising the cancellation.
\<close>

lemma fetch_and_check_cases:
  obtains (delivered) payload where
      "delivered w url (path_join (download_dir cfg) filename) = Some payload"
      "fetch_and_check cfg w label url filename media_type limit title files =
         (if length payload > limit
          then (Inr (too_large (length payload)),
                files(path_join (download_dir cfg) filename := None))
          else (Inr (download_success (path_join (download_dir cfg) filename) media_type
                       title),
                files(path_join (download_dir cfg) filename \<mapsto> payload)))"
  | (failed) e where
      "delivered w url (path_join (download_dir cfg) filename) = None"
      "\<not> cancelled w url (path_join (download_dir cfg) filename)"
      "fetch_and_check cfg w label url filename media_type limit title files =
         (Inr (download_failure (label @ '' download failed: '' @ exn_str w e)),
          files(path_join (download_dir cfg) filename := None))"
  | (cancelled)
      "cancelled w url (path_join (download_dir cfg) filename)"
      "fetch_and_check cfg w label url filename media_type limit title files =
         (Inl Cancelled,
          left_by_cancellation w url (path_join (download_dir cfg) filename) files)"
proof (cases "delivered w url (path_join (download_dir cfg) filename)")
  case (Some payload)
  with fetch_and_check_delivered [OF Some] delivered show ?thesis
    by blast
next
  case None
  show ?thesis
  proof (cases "cancelled w url (path_join (download_dir cfg) filename)")
    case True
    with fetch_and_check_cancelled [OF True] cancelled show ?thesis
      by blast
  next
    case False
    from fetch_and_check_failed
           [OF None False, where label = label and media_type = media_type
              and limit = limit and title = title and files = files]
    obtain e where
      "fetch_and_check cfg w label url filename media_type limit title files =
         (Inr (download_failure (label @ '' download failed: '' @ exn_str w e)),
          files(path_join (download_dir cfg) filename := None))"
      by blast
    with None False failed show ?thesis
      by blast
  qed
qed

lemma fetch_and_check_files:
  "fst (fetch_and_check cfg w label url filename media_type limit title files) = Inr d
   \<Longrightarrow> \<not> succeeded d
   \<Longrightarrow> snd (fetch_and_check cfg w label url filename media_type limit title files)
         = files(path_join (download_dir cfg) filename := None)"
  by (cases rule: fetch_and_check_cases
        [of w url cfg filename label media_type limit title files])
     (auto simp: succeeded_simps split: if_splits)

lemma fetch_and_check_raises:
  "fst (fetch_and_check cfg w label url filename media_type limit title files) = Inl f
   \<Longrightarrow> f = Cancelled \<and> cancelled w url (path_join (download_dir cfg) filename)"
  by (cases rule: fetch_and_check_cases
        [of w url cfg filename label media_type limit title files])
     (auto split: if_splits)

lemma tiktok_download_resolved:
  "tiktok_get_video_info w url = Resolved info \<Longrightarrow>
   tiktok_download cfg w url files =
     fetch_and_check cfg w ''TikTok'' (tk_download_url info)
       (''tiktok_'' @ tk_video_id info @ ''.mp4'') ''video'' (max_video_size cfg)
       (tk_title info) files
   \<and> path_join (download_dir cfg) (''tiktok_'' @ tk_video_id info @ ''.mp4'')
       = tiktok_target cfg info"
  by (simp add: tiktok_download_def tiktok_target_def)

lemma instagram_download_resolved:
  "instagram_get_media_info w url = Resolved info \<Longrightarrow>
   instagram_download cfg w url files =
     fetch_and_check cfg w ''Instagram'' (ig_media_url info)
       (''instagram_'' @ ig_media_id info
          @ (if truthy (ig_is_video info) then ''.mp4'' else ''.jpg''))
       (if truthy (ig_is_video info) then ''video'' else ''photo'')
       (instagram_limit cfg info) (ig_caption info) files
   \<and> path_join (download_dir cfg) (''instagram_'' @ ig_media_id info
          @ (if truthy (ig_is_video info) then ''.mp4'' else ''.jpg''))
       = instagram_target cfg info"
  by (simp add: instagram_download_def instagram_target_def instagram_limit_def)

lemma pinterest_download_resolved:
  "pinterest_get_pin_info w url = Resolved info \<Longrightarrow>
   pinterest_download cfg w url files =
     fetch_and_check cfg w ''Pinterest'' (JStr (pin_media_url info))
       (''pinterest_'' @ pin_id info @ pinterest_suffix info)
       (if pin_is_video info then ''video'' else ''photo'')
       (pinterest_limit cfg info) (JStr (pin_title info)) files
   \<and> path_join (download_dir cfg) (''pinterest_'' @ pin_id info @ pinterest_suffix info)
       = pinterest_target cfg info"
  by (simp add: pinterest_download_def pinterest_target_def pinterest_limit_def Let_def
        pinterest_suffix_def)

lemma round_half_even_nearest:
  assumes "0 < b"
  shows "2 * (a - round_half_even a b * b) \<le> b \<and> 2 * (round_half_even a b * b - a) \<le> b"
proof -
  define q where "q = a div b"
  define r where "r = a mod b"
  have a: "a = q * b + r" and r: "r < b"
    using assms by (simp_all add: q_def r_def)
  have rhe: "round_half_even a b =
      (if 2 * r < b then q else if b < 2 * r then Suc q else if even q then q else Suc q)"
    by (simp add: round_half_even_def q_def r_def Let_def)
  have "2 * (a - t * b) \<le> b \<and> 2 * (t * b - a) \<le> b" if "t = q \<and> 2 * r \<le> b \<or> t = Suc q \<and> b \<le> 2 * r" for t
    using that a r by auto
  then show ?thesis
    unfolding rhe by auto
qed

lemma mb_tenths_nearest:
  "2 * (file_size * 10 - mb_tenths file_size * (1024 * 1024)) \<le> 1024 * 1024
   \<and> 2 * (mb_tenths file_size * (1024 * 1024) - file_size * 10) \<le> 1024 * 1024"
  unfolding mb_tenths_def using round_half_even_nearest [of "1024 * 1024" "file_size * 10"]
  by simp

lemma show_nat_digit: "d < 10 \<Longrightarrow> show_nat d = [char_of (48 + d)]"
  by (subst show_nat.simps) simp

lemma format_mb_one_decimal:
  "format_mb n = show_nat (mb_tenths n div 10) @ ''.'' @ [char_of (48 + mb_tenths n mod 10)]"
  by (simp add: format_mb_def show_nat_digit)

text \<open>
  C9, as amended. A call of \<open>download_file\<close> fails with an exception of class
  \<open>Exception\<close> exactly when the media request delivers no payload and is not
  cancelled (the request raises an \<open>Exception\<close>, the status is not 200, the file does
  not open, or the loop that writes the chunks ends in an \<open>Exception\<close>). After such a
  call there is no file at the target path \<open>download_dir/filename\<close>, whether or not one
  was there before the call, and every other file is as it was. A call fails with the
  cancellation exactly when the request or the loop is cancelled; the handler does not
  run then, and the files stay as the body left them: as they were before the call
  when the request is cancelled, with the chunks written so far at the target path when
  the loop is.
\<close>

theorem download_file_failure_removes_target:
  "((\<exists>e. fst (download_file cfg w url filename files) = Inl (Error e))
      = (delivered w url (path_join (download_dir cfg) filename) = None
         \<and> \<not> cancelled w url (path_join (download_dir cfg) filename)))
   \<and> (fst (download_file cfg w url filename files) = Inl (Error e) \<longrightarrow>
        snd (download_file cfg w url filename files)
          = files(path_join (download_dir cfg) filename := None)
        \<and> snd (download_file cfg w url filename files)
            (path_join (download_dir cfg) filename) = None)
   \<and> ((fst (download_file cfg w url filename files) = Inl Cancelled)
      = cancelled w url (path_join (download_dir cfg) filename))
   \<and> (cancelled w url (path_join (download_dir cfg) filename) \<longrightarrow>
        snd (download_file cfg w url filename files)
          = left_by_cancellation w url (path_join (download_dir cfg) filename) files)"
proof (cases "delivered w url (path_join (download_dir cfg) filename)")
  case (Some payload)
  with delivered_not_cancelled [OF Some] show ?thesis
    by (simp add: download_file_delivered)
next
  case None
  show ?thesis
  proof (cases "cancelled w url (path_join (download_dir cfg) filename)")
    case True
    with None show ?thesis
      by (simp add: download_file_cancelled)
  next
    case False
    from download_file_failed [OF None False, of files] None False show ?thesis
      by auto
  qed
qed

theorem download_file_failure_removes_target_witness:
  "fst (download_file small_config (fixture [] no_json not_found_response)
          (JStr ''https://v.example/7.mp4'') ''tiktok_7.mp4''
          [''downloads/tiktok_7.mp4'' \<mapsto> ''earlier''])
     = Inl (Error (Exception ''HTTP 404: Failed to download file''))
   \<and> snd (download_file small_config (fixture [] no_json not_found_response)
          (JStr ''https://v.example/7.mp4'') ''tiktok_7.mp4''
          [''downloads/tiktok_7.mp4'' \<mapsto> ''earlier'']) ''downloads/tiktok_7.mp4'' = None
   \<and> fst (download_file small_config (fixture [] no_json broken_response)
          (JStr ''https://v.example/7.mp4'') ''tiktok_7.mp4''
          [''downloads/tiktok_7.mp4'' \<mapsto> ''earlier''])
     = Inl (Error (Exception ''Connection reset''))
   \<and> snd (download_file small_config (fixture [] no_json broken_response)
          (JStr ''https://v.example/7.mp4'') ''tiktok_7.mp4''
          [''downloads/tiktok_7.mp4'' \<mapsto> ''earlier'']) ''downloads/tiktok_7.mp4'' = None"
proof -
  have status: "fst (download_file small_config (fixture [] no_json not_found_response)
          (JStr ''https://v.example/7.mp4'') ''tiktok_7.mp4''
          [''downloads/tiktok_7.mp4'' \<mapsto> ''earlier''])
     = Inl (Error (Exception ''HTTP 404: Failed to download file''))"
    by code_simp
  have reset: "fst (download_file small_config (fixture [] no_json broken_response)
          (JStr ''https://v.example/7.mp4'') ''tiktok_7.mp4''
          [''downloads/tiktok_7.mp4'' \<mapsto> ''earlier''])
     = Inl (Error (Exception ''Connection reset''))"
    by code_simp
  have target: "path_join (download_dir small_config) ''tiktok_7.mp4'' = ''downloads/tiktok_7.mp4''"
    by code_simp
  from status reset target
    download_file_failure_removes_target
      [of small_config "fixture [] no_json not_found_response" "JStr ''https://v.example/7.mp4''"
          "''tiktok_7.mp4''" "[''downloads/tiktok_7.mp4'' \<mapsto> ''earlier'']"
          "Exception ''HTTP 404: Failed to download file''"]
    download_file_failure_removes_target
      [of small_config "fixture [] no_json broken_response" "JStr ''https://v.example/7.mp4''"
          "''tiktok_7.mp4''" "[''downloads/tiktok_7.mp4'' \<mapsto> ''earlier'']"
          "Exception ''Connection reset''"]
  show ?thesis by simp
qed

text \<open>
  C9 as stated fails: when the task is cancelled in the loop that writes the chunks,
  \<open>download_file\<close> ends with the cancellation, which is not an \<open>Exception\<close>; the
  handler does not run and the file with the chunks written so far stays at the target
  path.
\<close>

theorem download_file_failure_removes_target_counterexample:
  "fst (download_file small_config (fixture [] no_json cancelled_response)
          (JStr ''https://v.example/7.mp4'') ''tiktok_7.mp4'' Map.empty) = Inl Cancelled
   \<and> snd (download_file small_config (fixture [] no_json cancelled_response)
          (JStr ''https://v.example/7.mp4'') ''tiktok_7.mp4'' Map.empty)
        ''downloads/tiktok_7.mp4'' = Some ''abcdef''"
  by code_simp

subsection \<open>The result of a download\<close>

lemma worded_text: "worded f \<Longrightarrow> failure_text w f \<noteq> []"
  by (cases f) (simp_all add: worded_def)

lemma tiktok_read_state_worded:
  "tiktok_read_state data video_id = Inr (Failed f) \<Longrightarrow> worded f"
  by (auto simp: tiktok_read_state_def try_bind_def worded_def split: sum.splits if_splits)

lemma tiktok_worded: "tiktok_get_video_info w url = Failed f \<Longrightarrow> worded f"
  by (auto simp: tiktok_get_video_info_def tiktok_read_page_def worded_def
           dest: tiktok_read_state_worded
           split: sum.splits option.splits if_splits exn.splits)

lemma instagram_read_data_worded:
  "instagram_read_data data shortcode = Inr (Failed f) \<Longrightarrow> worded f"
  by (auto simp: instagram_read_data_def try_bind_def worded_def split: sum.splits if_splits)

lemma instagram_worded: "instagram_get_media_info w url = Failed f \<Longrightarrow> worded f"
  by (auto simp: instagram_get_media_info_def instagram_read_page_def worded_def
           dest: instagram_read_data_worded
           split: sum.splits option.splits if_splits exn.splits)

lemma pinterest_worded: "pinterest_get_pin_info w url = Failed f \<Longrightarrow> worded f"
  by (auto simp: pinterest_get_pin_info_def pinterest_read_page_def worded_def
           split: sum.splits option.splits if_splits)

lemma path_join_nonempty: "filename \<noteq> [] \<Longrightarrow> path_join dir filename \<noteq> []"
  by (simp add: path_join_def)

lemma well_formed_failures:
  "m \<noteq> [] \<Longrightarrow> well_formed (download_failure m)"
  "well_formed (too_large n)"
  "worded f \<Longrightarrow> well_formed (info_failure w f)"
  by (simp_all add: well_formed_def succeeded_def failed_def filled_def unfilled_def
        download_failure_def too_large_def info_failure_def worded_text)

lemma well_formed_success:
  "p \<noteq> [] \<Longrightarrow> m \<noteq> [] \<Longrightarrow> well_formed (download_success p m t)"
  by (simp add: well_formed_def succeeded_def failed_def filled_def unfilled_def
        download_success_def)

lemma fetch_and_check_well_formed:
  "filename \<noteq> [] \<Longrightarrow> media_type \<noteq> [] \<Longrightarrow>
   fst (fetch_and_check cfg w label url filename media_type limit title files) = Inr d \<Longrightarrow>
   well_formed d"
  by (cases rule: fetch_and_check_cases
        [of w url cfg filename label media_type limit title files])
     (auto simp: well_formed_failures well_formed_success path_join_nonempty
           split: if_splits)

text \<open>
  C2. The dictionary each platform's \<open>download\<close> returns is never partially filled:
  when \<open>success\<close> is true, \<open>file_path\<close> and \<open>media_type\<close> hold non-empty
  strings and \<open>error\<close> is \<open>None\<close>; otherwise \<open>success\<close> is false, \<open>error\<close>
  holds a non-empty string, and \<open>file_path\<close> and \<open>media_type\<close> are \<open>None\<close> or
  absent (the dictionary of a resolver's failure has only \<open>success\<close> and \<open>error\<close>).
  A \<open>download\<close> returns such a dictionary for every URL, unless the task is cancelled
  while the media file is fetched: then it raises the cancellation and returns nothing.
\<close>

theorem download_result_well_formed:
  "(fst (tiktok_download cfg w url files) = Inr d \<longrightarrow> well_formed d)
   \<and> (fst (instagram_download cfg w url files) = Inr d \<longrightarrow> well_formed d)
   \<and> (fst (pinterest_download cfg w url files) = Inr d \<longrightarrow> well_formed d)
   \<and> (fst (tiktok_download cfg w url files) = Inl f \<longrightarrow>
        f = Cancelled
        \<and> (\<exists>ti. tiktok_get_video_info w url = Resolved ti
              \<and> cancelled w (tk_download_url ti) (tiktok_target cfg ti)))
   \<and> (fst (instagram_download cfg w url files) = Inl f \<longrightarrow>
        f = Cancelled
        \<and> (\<exists>ii. instagram_get_media_info w url = Resolved ii
              \<and> cancelled w (ig_media_url ii) (instagram_target cfg ii)))
   \<and> (fst (pinterest_download cfg w url files) = Inl f \<longrightarrow>
        f = Cancelled
        \<and> (\<exists>pn. pinterest_get_pin_info w url = Resolved pn
              \<and> cancelled w (JStr (pin_media_url pn)) (pinterest_target cfg pn)))"
proof -
  have t: "fst (tiktok_download cfg w url files) = Inr d \<longrightarrow> well_formed d"
    by (cases "tiktok_get_video_info w url")
       (auto simp: tiktok_download_def well_formed_failures tiktok_worded
             intro: fetch_and_check_well_formed [rotated 2])
  have i: "fst (instagram_download cfg w url files) = Inr d \<longrightarrow> well_formed d"
    by (cases "instagram_get_media_info w url")
       (auto simp: instagram_download_def well_formed_failures instagram_worded
             intro: fetch_and_check_well_formed [rotated 2] split: if_splits)
  have p: "fst (pinterest_download cfg w url files) = Inr d \<longrightarrow> well_formed d"
    by (cases "pinterest_get_pin_info w url")
       (auto simp: pinterest_download_def well_formed_failures pinterest_worded Let_def
             intro: fetch_and_check_well_formed [rotated 2] split: if_splits)
  have tc: "fst (tiktok_download cfg w url files) = Inl f \<longrightarrow>
        f = Cancelled
        \<and> (\<exists>ti. tiktok_get_video_info w url = Resolved ti
              \<and> cancelled w (tk_download_url ti) (tiktok_target cfg ti))"
  proof (cases "tiktok_get_video_info w url")
    case (Failed x)
    then show ?thesis by (simp add: tiktok_download_def)
  next
    case (Resolved ti)
    from tiktok_download_resolved [OF this, of cfg files] Resolved show ?thesis
      by (auto dest: fetch_and_check_raises)
  qed
  have ic: "fst (instagram_download cfg w url files) = Inl f \<longrightarrow>
        f = Cancelled
        \<and> (\<exists>ii. instagram_get_media_info w url = Resolved ii
              \<and> cancelled w (ig_media_url ii) (instagram_target cfg ii))"
  proof (cases "instagram_get_media_info w url")
    case (Failed x)
    then show ?thesis by (simp add: instagram_download_def)
  next
    case (Resolved ii)
    from instagram_download_resolved [OF this, of cfg files] Resolved show ?thesis
      by (auto dest: fetch_and_check_raises)
  qed
  have pc: "fst (pinterest_download cfg w url files) = Inl f \<longrightarrow>
        f = Cancelled
        \<and> (\<exists>pn. pinterest_get_pin_info w url = Resolved pn
              \<and> cancelled w (JStr (pin_media_url pn)) (pinterest_target cfg pn))"
  proof (cases "pinterest_get_pin_info w url")
    case (Failed x)
    then show ?thesis by (simp add: pinterest_download_def)
  next
    case (Resolved pn)
    from pinterest_download_resolved [OF this, of cfg files] Resolved show ?thesis
      by (auto dest: fetch_and_check_raises)
  qed
  from t i p tc ic pc show ?thesis by blast
qed

theorem download_result_well_formed_witness:
  "fst (tiktok_download small_config (fixture [] no_json not_found_response)
      ''https://www.tiktok.com/'' Map.empty)
     = Inr [(''success'', JBool False),
            (''error'', JStr ''Could not extract video ID from URL'')]
   \<and> well_formed [(''success'', JBool False),
                  (''error'', JStr ''Could not extract video ID from URL'')]
   \<and> fst (instagram_download small_config
      (fixture photo_page no_json (payload_of [''ab'', ''cd''])) ''https://www.instagram.com/p/Cx1/''
      Map.empty)
     = Inr [(''success'', JBool True), (''file_path'', JStr ''downloads/instagram_Cx1.jpg''),
            (''media_type'', JStr ''photo''), (''title'', JStr ''Instagram Photo''),
            (''error'', JNull)]
   \<and> well_formed [(''success'', JBool True), (''file_path'', JStr ''downloads/instagram_Cx1.jpg''),
                  (''media_type'', JStr ''photo''), (''title'', JStr ''Instagram Photo''),
                  (''error'', JNull)]"
proof -
  have a: "fst (tiktok_download small_config (fixture [] no_json not_found_response)
      ''https://www.tiktok.com/'' Map.empty)
     = Inr [(''success'', JBool False),
            (''error'', JStr ''Could not extract video ID from URL'')]"
    by code_simp
  have b: "fst (instagram_download small_config
      (fixture photo_page no_json (payload_of [''ab'', ''cd''])) ''https://www.instagram.com/p/Cx1/''
      Map.empty)
     = Inr [(''success'', JBool True), (''file_path'', JStr ''downloads/instagram_Cx1.jpg''),
            (''media_type'', JStr ''photo''), (''title'', JStr ''Instagram Photo''),
            (''error'', JNull)]"
    by code_simp
  note tiktok = download_result_well_formed
      [where cfg = small_config and w = "fixture [] no_json not_found_response"
         and url = "''https://www.tiktok.com/''" and files = Map.empty,
       THEN conjunct1, rule_format, OF a]
  note instagram = download_result_well_formed
      [where cfg = small_config
         and w = "fixture photo_page no_json (payload_of [''ab'', ''cd''])"
         and url = "''https://www.instagram.com/p/Cx1/''" and files = Map.empty,
       THEN conjunct2, THEN conjunct1, rule_format, OF b]
  show ?thesis
    by (intro conjI a b tiktok instagram)
qed

text \<open>
  C10. The size check after a download is a strict comparison. When the resolver has
  named a medium and the media request delivers a payload, each platform's
  \<open>download\<close> succeeds exactly when the size of the payload is at most the ceiling
  that applies (the video ceiling for a video, the photo ceiling for a photo): a file
  whose size equals the ceiling is accepted and stays on disk with the payload as its
  content, and only a strictly larger one is rejected and removed.
\<close>

theorem size_check_is_strict:
  "(tiktok_get_video_info w url = Resolved ti
      \<and> delivered w (tk_download_url ti) (tiktok_target cfg ti) = Some payload \<longrightarrow>
        tiktok_download cfg w url files =
          (if max_video_size cfg < length payload
           then (Inr (too_large (length payload)), files(tiktok_target cfg ti := None))
           else (Inr (download_success (tiktok_target cfg ti) ''video'' (tk_title ti)),
                 files(tiktok_target cfg ti \<mapsto> payload)))
        \<and> (\<exists>d. fst (tiktok_download cfg w url files) = Inr d
              \<and> succeeded d = (length payload \<le> max_video_size cfg)))
   \<and> (instagram_get_media_info w url = Resolved ii
      \<and> delivered w (ig_media_url ii) (instagram_target cfg ii) = Some payload \<longrightarrow>
        instagram_download cfg w url files =
          (if instagram_limit cfg ii < length payload
           then (Inr (too_large (length payload)), files(instagram_target cfg ii := None))
           else (Inr (download_success (instagram_target cfg ii)
                        (if truthy (ig_is_video ii) then ''video'' else ''photo'')
                        (ig_caption ii)),
                 files(instagram_target cfg ii \<mapsto> payload)))
        \<and> (\<exists>d. fst (instagram_download cfg w url files) = Inr d
              \<and> succeeded d = (length payload \<le> instagram_limit cfg ii)))
   \<and> (pinterest_get_pin_info w url = Resolved pn
      \<and> delivered w (JStr (pin_media_url pn)) (pinterest_target cfg pn) = Some payload \<longrightarrow>
        pinterest_download cfg w url files =
          (if pinterest_limit cfg pn < length payload
           then (Inr (too_large (length payload)), files(pinterest_target cfg pn := None))
           else (Inr (download_success (pinterest_target cfg pn)
                        (if pin_is_video pn then ''video'' else ''photo'')
                        (JStr (pin_title pn))),
                 files(pinterest_target cfg pn \<mapsto> payload)))
        \<and> (\<exists>d. fst (pinterest_download cfg w url files) = Inr d
              \<and> succeeded d = (length payload \<le> pinterest_limit cfg pn)))"
proof (intro conjI impI)
  assume a: "tiktok_get_video_info w url = Resolved ti
      \<and> delivered w (tk_download_url ti) (tiktok_target cfg ti) = Some payload"
  from a tiktok_download_resolved [of w url ti cfg files]
  show t: "tiktok_download cfg w url files =
          (if max_video_size cfg < length payload
           then (Inr (too_large (length payload)), files(tiktok_target cfg ti := None))
           else (Inr (download_success (tiktok_target cfg ti) ''video'' (tk_title ti)),
                 files(tiktok_target cfg ti \<mapsto> payload)))"
    by (simp add: fetch_and_check_delivered)
  show "\<exists>d. fst (tiktok_download cfg w url files) = Inr d
              \<and> succeeded d = (length payload \<le> max_video_size cfg)"
    by (simp add: t succeeded_simps)
next
  assume a: "instagram_get_media_info w url = Resolved ii
      \<and> delivered w (ig_media_url ii) (instagram_target cfg ii) = Some payload"
  from a instagram_download_resolved [of w url ii cfg files]
  show t: "instagram_download cfg w url files =
          (if instagram_limit cfg ii < length payload
           then (Inr (too_large (length payload)), files(instagram_target cfg ii := None))
           else (Inr (download_success (instagram_target cfg ii)
                        (if truthy (ig_is_video ii) then ''video'' else ''photo'')
                        (ig_caption ii)),
                 files(instagram_target cfg ii \<mapsto> payload)))"
    by (simp add: fetch_and_check_delivered)
  show "\<exists>d. fst (instagram_download cfg w url files) = Inr d
              \<and> succeeded d = (length payload \<le> instagram_limit cfg ii)"
    by (simp add: t succeeded_simps)
next
  assume a: "pinterest_get_pin_info w url = Resolved pn
      \<and> delivered w (JStr (pin_media_url pn)) (pinterest_target cfg pn) = Some payload"
  from a pinterest_download_resolved [of w url pn cfg files]
  show t: "pinterest_download cfg w url files =
          (if pinterest_limit cfg pn < length payload
           then (Inr (too_large (length payload)), files(pinterest_target cfg pn := None))
           else (Inr (download_success (pinterest_target cfg pn)
                        (if pin_is_video pn then ''video'' else ''photo'')
                        (JStr (pin_title pn))),
                 files(pinterest_target cfg pn \<mapsto> payload)))"
    by (simp add: fetch_and_check_delivered)
  show "\<exists>d. fst (pinterest_download cfg w url files) = Inr d
              \<and> succeeded d = (length payload \<le> pinterest_limit cfg pn)"
    by (simp add: t succeeded_simps)
qed

theorem size_check_is_strict_witness:
  "instagram_get_media_info (fixture photo_page no_json (payload_of [''ab'', ''cd'']))
      ''https://www.instagram.com/p/Cx1/'' = Resolved photo_info
   \<and> delivered (fixture photo_page no_json (payload_of [''ab'', ''cd'']))
        (ig_media_url photo_info) (instagram_target small_config photo_info) = Some ''abcd''
   \<and> length ''abcd'' = instagram_limit small_config photo_info
   \<and> instagram_download small_config
        (fixture photo_page no_json (payload_of [''ab'', ''cd'']))
        ''https://www.instagram.com/p/Cx1/'' Map.empty
       = (Inr (download_success (instagram_target small_config photo_info) ''photo''
                 (JStr ''Instagram Photo'')),
          [instagram_target small_config photo_info \<mapsto> ''abcd''])
   \<and> succeeded (download_success (instagram_target small_config photo_info) ''photo''
                 (JStr ''Instagram Photo''))"
proof -
  have r: "instagram_get_media_info (fixture photo_page no_json (payload_of [''ab'', ''cd'']))
      ''https://www.instagram.com/p/Cx1/'' = Resolved photo_info"
    by code_simp
  have d: "delivered (fixture photo_page no_json (payload_of [''ab'', ''cd'']))
        (ig_media_url photo_info) (instagram_target small_config photo_info) = Some ''abcd''"
    by code_simp
  have l: "instagram_limit small_config photo_info = 4"
    by code_simp
  have v: "ig_is_video photo_info = JBool False" "ig_caption photo_info = JStr ''Instagram Photo''"
    by (simp_all add: photo_info_def)
  note strict = size_check_is_strict
      [where w = "fixture photo_page no_json (payload_of [''ab'', ''cd''])"
         and url = "''https://www.instagram.com/p/Cx1/''" and cfg = small_config
         and files = Map.empty and ii = photo_info and payload = "''abcd''",
       THEN conjunct2, THEN conjunct1, rule_format, OF conjI, OF r d, THEN conjunct1]
  from strict r d l v show ?thesis by (simp add: succeeded_simps)
qed

text \<open>
  C1. A download that ends in failure leaves no file of its own on disk. If the
  resolver fails, the files are as they were before the call. If the resolver has named
  a medium and the download fails after that (the request raises, the status is not
  200, the file does not open, the writing loop raises, or the size is above the
  ceiling), there is no file at the target path when the result is returned and every
  other file is as it was. When the payload is larger than the ceiling, the result is
  the failure whose text is \<open>File too large (\<close>\<open>x.y\<close>\<open>MB)\<close>, where \<open>x.y\<close> is the
  size in units of \<open>1024 * 1024\<close> bytes with exactly one decimal, the nearest such
  number to the size.
\<close>

theorem failed_download_leaves_no_file:
  "(fst (tiktok_download cfg w url files) = Inr d \<and> \<not> succeeded d \<longrightarrow>
      (case tiktok_get_video_info w url of
         Failed f \<Rightarrow> snd (tiktok_download cfg w url files) = files
       | Resolved ti \<Rightarrow>
           snd (tiktok_download cfg w url files) = files(tiktok_target cfg ti := None)))
   \<and> (fst (instagram_download cfg w url files) = Inr d \<and> \<not> succeeded d \<longrightarrow>
      (case instagram_get_media_info w url of
         Failed f \<Rightarrow> snd (instagram_download cfg w url files) = files
       | Resolved ii \<Rightarrow>
           snd (instagram_download cfg w url files) = files(instagram_target cfg ii := None)))
   \<and> (fst (pinterest_download cfg w url files) = Inr d \<and> \<not> succeeded d \<longrightarrow>
      (case pinterest_get_pin_info w url of
         Failed f \<Rightarrow> snd (pinterest_download cfg w url files) = files
       | Resolved pn \<Rightarrow>
           snd (pinterest_download cfg w url files) = files(pinterest_target cfg pn := None)))
   \<and> (tiktok_get_video_info w url = Resolved ti
        \<and> delivered w (tk_download_url ti) (tiktok_target cfg ti) = Some payload
        \<and> max_video_size cfg < length payload \<longrightarrow>
          fst (tiktok_download cfg w url files)
            = Inr (download_failure
                     (''File too large ('' @ format_mb (length payload) @ ''MB)''))
          \<and> snd (tiktok_download cfg w url files) (tiktok_target cfg ti) = None)
   \<and> (instagram_get_media_info w url = Resolved ii
        \<and> delivered w (ig_media_url ii) (instagram_target cfg ii) = Some payload
        \<and> instagram_limit cfg ii < length payload \<longrightarrow>
          fst (instagram_download cfg w url files)
            = Inr (download_failure
                     (''File too large ('' @ format_mb (length payload) @ ''MB)''))
          \<and> snd (instagram_download cfg w url files) (instagram_target cfg ii) = None)
   \<and> (pinterest_get_pin_info w url = Resolved pn
        \<and> delivered w (JStr (pin_media_url pn)) (pinterest_target cfg pn) = Some payload
        \<and> pinterest_limit cfg pn < length payload \<longrightarrow>
          fst (pinterest_download cfg w url files)
            = Inr (download_failure
                     (''File too large ('' @ format_mb (length payload) @ ''MB)''))
          \<and> snd (pinterest_download cfg w url files) (pinterest_target cfg pn) = None)
   \<and> format_mb n = show_nat (mb_tenths n div 10) @ ''.'' @ [char_of (48 + mb_tenths n mod 10)]
   \<and> 2 * (n * 10 - mb_tenths n * (1024 * 1024)) \<le> 1024 * 1024
   \<and> 2 * (mb_tenths n * (1024 * 1024) - n * 10) \<le> 1024 * 1024"
proof -
  have t1: "fst (tiktok_download cfg w url files) = Inr d \<and> \<not> succeeded d \<longrightarrow>
      (case tiktok_get_video_info w url of
         Failed f \<Rightarrow> snd (tiktok_download cfg w url files) = files
       | Resolved ti \<Rightarrow>
           snd (tiktok_download cfg w url files) = files(tiktok_target cfg ti := None))"
  proof (cases "tiktok_get_video_info w url")
    case (Failed f)
    then show ?thesis by (simp add: tiktok_download_def)
  next
    case (Resolved v)
    from tiktok_download_resolved [OF this, of cfg files] Resolved
    show ?thesis by (auto dest: fetch_and_check_files)
  qed
  have i1: "fst (instagram_download cfg w url files) = Inr d \<and> \<not> succeeded d \<longrightarrow>
      (case instagram_get_media_info w url of
         Failed f \<Rightarrow> snd (instagram_download cfg w url files) = files
       | Resolved ii \<Rightarrow>
           snd (instagram_download cfg w url files) = files(instagram_target cfg ii := None))"
  proof (cases "instagram_get_media_info w url")
    case (Failed f)
    then show ?thesis by (simp add: instagram_download_def)
  next
    case (Resolved v)
    from instagram_download_resolved [OF this, of cfg files] Resolved
    show ?thesis by (auto dest: fetch_and_check_files)
  qed
  have p1: "fst (pinterest_download cfg w url files) = Inr d \<and> \<not> succeeded d \<longrightarrow>
      (case pinterest_get_pin_info w url of
         Failed f \<Rightarrow> snd (pinterest_download cfg w url files) = files
       | Resolved pn \<Rightarrow>
           snd (pinterest_download cfg w url files) = files(pinterest_target cfg pn := None))"
  proof (cases "pinterest_get_pin_info w url")
    case (Failed f)
    then show ?thesis by (simp add: pinterest_download_def)
  next
    case (Resolved v)
    from pinterest_download_resolved [OF this, of cfg files] Resolved
    show ?thesis by (auto dest: fetch_and_check_files)
  qed
  have t2: "tiktok_get_video_info w url = Resolved ti
        \<and> delivered w (tk_download_url ti) (tiktok_target cfg ti) = Some payload
        \<and> max_video_size cfg < length payload \<longrightarrow>
          fst (tiktok_download cfg w url files)
            = Inr (download_failure
                     (''File too large ('' @ format_mb (length payload) @ ''MB)''))
          \<and> snd (tiktok_download cfg w url files) (tiktok_target cfg ti) = None"
    using tiktok_download_resolved [of w url ti cfg files]
    by (auto simp: fetch_and_check_delivered too_large_def)
  have i2: "instagram_get_media_info w url = Resolved ii
        \<and> delivered w (ig_media_url ii) (instagram_target cfg ii) = Some payload
        \<and> instagram_limit cfg ii < length payload \<longrightarrow>
          fst (instagram_download cfg w url files)
            = Inr (download_failure
                     (''File too large ('' @ format_mb (length payload) @ ''MB)''))
          \<and> snd (instagram_download cfg w url files) (instagram_target cfg ii) = None"
    using instagram_download_resolved [of w url ii cfg files]
    by (auto simp: fetch_and_check_delivered too_large_def)
  have p2: "pinterest_get_pin_info w url = Resolved pn
        \<and> delivered w (JStr (pin_media_url pn)) (pinterest_target cfg pn) = Some payload
        \<and> pinterest_limit cfg pn < length payload \<longrightarrow>
          fst (pinterest_download cfg w url files)
            = Inr (download_failure
                     (''File too large ('' @ format_mb (length payload) @ ''MB)''))
          \<and> snd (pinterest_download cfg w url files) (pinterest_target cfg pn) = None"
    using pinterest_download_resolved [of w url pn cfg files]
    by (auto simp: fetch_and_check_delivered too_large_def)
  from t1 i1 p1 t2 i2 p2 format_mb_one_decimal [of n] mb_tenths_nearest [of n]
  show ?thesis by blast
qed

theorem failed_download_leaves_no_file_witness:
  "instagram_get_media_info (fixture photo_page no_json (payload_of [''ab'', ''cde'']))
      ''https://www.instagram.com/p/Cx1/'' = Resolved photo_info
   \<and> delivered (fixture photo_page no_json (payload_of [''ab'', ''cde'']))
        (ig_media_url photo_info) (instagram_target small_config photo_info) = Some ''abcde''
   \<and> instagram_limit small_config photo_info < length ''abcde''
   \<and> fst (instagram_download small_config
        (fixture photo_page no_json (payload_of [''ab'', ''cde'']))
        ''https://www.instagram.com/p/Cx1/'' [''downloads/other.jpg'' \<mapsto> ''kept''])
       = Inr (download_failure ''File too large (0.0MB)'')
   \<and> snd (instagram_download small_config
        (fixture photo_page no_json (payload_of [''ab'', ''cde'']))
        ''https://www.instagram.com/p/Cx1/'' [''downloads/other.jpg'' \<mapsto> ''kept''])
        (instagram_target small_config photo_info) = None
   \<and> format_mb 11010048 = ''10.5'' \<and> format_mb 262144 = ''0.2''"
proof -
  have r: "instagram_get_media_info (fixture photo_page no_json (payload_of [''ab'', ''cde'']))
      ''https://www.instagram.com/p/Cx1/'' = Resolved photo_info"
    by code_simp
  have d: "delivered (fixture photo_page no_json (payload_of [''ab'', ''cde'']))
        (ig_media_url photo_info) (instagram_target small_config photo_info) = Some ''abcde''"
    by code_simp
  have l: "instagram_limit small_config photo_info < length ''abcde''"
    by code_simp
  have tenths: "mb_tenths 5 = 0" "mb_tenths 11010048 = 105" "mb_tenths 262144 = 2"
    by (simp_all add: mb_tenths_def round_half_even_def Let_def)
  have digits: "show_nat 0 = ''0''" "show_nat 10 = ''10''" "show_nat 5 = ''5''"
      "show_nat 2 = ''2''"
    by code_simp+
  have f: "format_mb 5 = ''0.0''" "format_mb 11010048 = ''10.5''" "format_mb 262144 = ''0.2''"
    by (simp_all add: format_mb_def tenths digits)
  note large = failed_download_leaves_no_file
      [where w = "fixture photo_page no_json (payload_of [''ab'', ''cde''])"
         and url = "''https://www.instagram.com/p/Cx1/''" and cfg = small_config
         and files = "[''downloads/other.jpg'' \<mapsto> ''kept'']" and ii = photo_info
         and payload = "''abcde''",
       THEN conjunct2, THEN conjunct2, THEN conjunct2, THEN conjunct2, THEN conjunct1,
       rule_format, OF conjI, OF r conjI, OF d l]
  have five: "length ''abcde'' = 5"
    by simp
  from large [unfolded five f] r d l f show ?thesis
    by (simp only: five f simp_thms, simp)
qed

subsection \<open>The Instagram resolver\<close>

lemma amp_escape_nonempty: "amp_escape \<noteq> []"
  by (simp add: amp_escape_def)

lemma prefix_amp_escape_Cons:
  "prefix amp_escape (c # r) = (c = CHR 0x5C \<and> prefix ''u0026'' r)"
  by (auto simp: amp_escape_def)

lemma replace_amp_nil: "py_replace amp_escape ''&'' [] = []"
  by (subst py_replace.simps) (simp add: amp_escape_nonempty)

lemma replace_amp_match:
  "prefix amp_escape s \<Longrightarrow>
   py_replace amp_escape ''&'' s
     = CHR ''&'' # py_replace amp_escape ''&'' (drop (length amp_escape) s)"
  by (subst py_replace.simps) (simp add: amp_escape_nonempty)

lemma replace_amp_step:
  "\<not> prefix amp_escape (c # cs) \<Longrightarrow>
   py_replace amp_escape ''&'' (c # cs) = c # py_replace amp_escape ''&'' cs"
  by (subst py_replace.simps) simp

lemma replace_amp_prefix:
  "CHR ''&'' \<notin> set q \<Longrightarrow> prefix q (py_replace amp_escape ''&'' cs) \<Longrightarrow> prefix q cs"
proof (induction q arbitrary: cs)
  case Nil
  then show ?case by simp
next
  case (Cons a q)
  show ?case
  proof (cases cs)
    case Nil
    with Cons.prems show ?thesis by (simp add: replace_amp_nil)
  next
    case (Cons c cs')
    show ?thesis
    proof (cases "prefix amp_escape cs")
      case True
      with Cons.prems show ?thesis by (simp add: replace_amp_match)
    next
      case False
      with Cons Cons.prems Cons.IH [of cs'] show ?thesis
        by (simp add: replace_amp_step)
    qed
  qed
qed

lemma no_amp_escape_left: "\<not> sublist amp_escape (py_replace amp_escape ''&'' s)"
proof (induction s rule: length_induct)
  case (1 s)
  show ?case
  proof (cases "prefix amp_escape s")
    case True
    then have "length (drop (length amp_escape) s) < length s"
      by (auto simp: prefix_def amp_escape_def)
    with 1 have "\<not> sublist amp_escape
        (py_replace amp_escape ''&'' (drop (length amp_escape) s))"
      by blast
    with True show ?thesis
      by (simp add: replace_amp_match sublist_Cons_right prefix_amp_escape_Cons)
  next
    case False
    show ?thesis
    proof (cases s)
      case Nil
      then show ?thesis by (simp add: replace_amp_nil amp_escape_nonempty)
    next
      case (Cons c cs)
      with 1 have ih: "\<not> sublist amp_escape (py_replace amp_escape ''&'' cs)"
        by simp
      have "\<not> prefix amp_escape (c # py_replace amp_escape ''&'' cs)"
      proof
        assume p: "prefix amp_escape (c # py_replace amp_escape ''&'' cs)"
        then have c: "c = CHR 0x5C"
          and pr: "prefix ''u0026'' (py_replace amp_escape ''&'' cs)"
          by (simp_all add: prefix_amp_escape_Cons)
        have "prefix ''u0026'' cs"
          by (rule replace_amp_prefix [OF _ pr]) simp
        with c have "prefix amp_escape (c # cs)"
          by (simp add: prefix_amp_escape_Cons)
        with False Cons show False by simp
      qed
      with ih False Cons show ?thesis
        by (simp add: replace_amp_step sublist_Cons_right)
    qed
  qed
qed

lemma instagram_embed_page_read:
  "instagram_embed_page w url = Some (shortcode, content) \<Longrightarrow>
   instagram_get_media_info w url = instagram_read_page w shortcode content"
  by (auto simp: instagram_embed_page_def instagram_get_media_info_def
           split: option.splits sum.splits if_splits)

lemma instagram_read_data_not_parse:
  "instagram_read_data data shortcode \<noteq> Inr (Failed (ParseError m))"
  by (auto simp: instagram_read_data_def try_bind_def split: sum.splits if_splits)

lemma instagram_read_page_parse:
  "instagram_read_page w shortcode content = Failed (ParseError m) \<Longrightarrow>
   \<exists>blob. re_search additional_data_re content = Some blob
      \<and> json_loads w blob = Inl JSONDecodeError"
  using instagram_read_data_not_parse
  by (auto simp: instagram_read_page_def split: option.splits sum.splits exn.splits)

lemma instagram_parse_error_page:
  "instagram_get_media_info w url = Failed (ParseError m) \<Longrightarrow>
   \<exists>shortcode content. instagram_embed_page w url = Some (shortcode, content)
      \<and> instagram_read_page w shortcode content = Failed (ParseError m)"
  by (auto simp: instagram_embed_page_def instagram_get_media_info_def
           split: option.splits sum.splits if_splits)

text \<open>
  C4. Let the embed page of an Instagram URL be read (a shortcode in the URL, status
  200). If neither the loader-call pattern nor the GraphImage pattern matches its text
  and the GraphVideo pattern matches with group \<open>g\<close>, the resolver succeeds with
  \<open>is_video\<close> true and the media URL \<open>g.replace('\\u0026', '&')\<close>, in which the
  escape no longer occurs. If none of the three patterns matches, the resolver fails
  with the NotFound failure. The resolver fails with the ParseError failure only when
  the page was read, the loader-call pattern matched and its group did not decode
  (\<open>json.loads\<close> raised \<open>JSONDecodeError\<close>), and it does fail so then.
\<close>

theorem instagram_fallback_chain:
  "(instagram_embed_page w url = Some (shortcode, content)
      \<and> re_search additional_data_re content = None
      \<and> re_search graph_image_re content = None
      \<and> re_search graph_video_re content = Some g \<longrightarrow>
        instagram_get_media_info w url =
          Resolved \<lparr>ig_media_id = shortcode,
                    ig_media_url = JStr (py_replace amp_escape ''&'' g),
                    ig_is_video = JBool True, ig_caption = JStr ''Instagram Video''\<rparr>
        \<and> \<not> sublist amp_escape (py_replace amp_escape ''&'' g))
   \<and> (instagram_embed_page w url = Some (shortcode, content)
      \<and> re_search additional_data_re content = None
      \<and> re_search graph_image_re content = None
      \<and> re_search graph_video_re content = None \<longrightarrow>
        instagram_get_media_info w url
          = Failed (NotFound ''Could not find media data in embed page''))
   \<and> (instagram_get_media_info w url = Failed (ParseError m) \<longrightarrow>
        (\<exists>code page blob. instagram_embed_page w url = Some (code, page)
            \<and> re_search additional_data_re page = Some blob
            \<and> json_loads w blob = Inl JSONDecodeError))
   \<and> (instagram_embed_page w url = Some (shortcode, content)
      \<and> re_search additional_data_re content = Some blob
      \<and> json_loads w blob = Inl JSONDecodeError \<longrightarrow>
        instagram_get_media_info w url = Failed (ParseError ''Failed to parse media data''))"
proof (intro conjI impI)
  assume "instagram_embed_page w url = Some (shortcode, content)
      \<and> re_search additional_data_re content = None
      \<and> re_search graph_image_re content = None
      \<and> re_search graph_video_re content = Some g"
  then show "instagram_get_media_info w url =
          Resolved \<lparr>ig_media_id = shortcode,
                    ig_media_url = JStr (py_replace amp_escape ''&'' g),
                    ig_is_video = JBool True, ig_caption = JStr ''Instagram Video''\<rparr>"
    by (simp add: instagram_embed_page_read instagram_read_page_def)
  show "\<not> sublist amp_escape (py_replace amp_escape ''&'' g)"
    by (rule no_amp_escape_left)
next
  assume "instagram_embed_page w url = Some (shortcode, content)
      \<and> re_search additional_data_re content = None
      \<and> re_search graph_image_re content = None
      \<and> re_search graph_video_re content = None"
  then show "instagram_get_media_info w url
          = Failed (NotFound ''Could not find media data in embed page'')"
    by (simp add: instagram_embed_page_read instagram_read_page_def)
next
  assume "instagram_get_media_info w url = Failed (ParseError m)"
  from instagram_parse_error_page [OF this]
  show "\<exists>code page blob. instagram_embed_page w url = Some (code, page)
            \<and> re_search additional_data_re page = Some blob
            \<and> json_loads w blob = Inl JSONDecodeError"
    by (blast dest: instagram_read_page_parse)
next
  assume "instagram_embed_page w url = Some (shortcode, content)
      \<and> re_search additional_data_re content = Some blob
      \<and> json_loads w blob = Inl JSONDecodeError"
  then show "instagram_get_media_info w url = Failed (ParseError ''Failed to parse media data'')"
    by (simp add: instagram_embed_page_read instagram_read_page_def)
qed

theorem instagram_fallback_chain_witness:
  "instagram_embed_page (fixture video_page no_json not_found_response)
      ''https://www.instagram.com/reel/Cx1/'' = Some (''Cx1'', video_page)
   \<and> re_search additional_data_re video_page = None
   \<and> re_search graph_image_re video_page = None
   \<and> re_search graph_video_re video_page
       = Some (''https://v.example/a.mp4?x=1'' @ amp_escape @ ''y=2'')
   \<and> instagram_get_media_info (fixture video_page no_json not_found_response)
        ''https://www.instagram.com/reel/Cx1/''
       = Resolved \<lparr>ig_media_id = ''Cx1'',
                   ig_media_url = JStr ''https://v.example/a.mp4?x=1&y=2'',
                   ig_is_video = JBool True, ig_caption = JStr ''Instagram Video''\<rparr>"
proof -
  have page: "instagram_embed_page (fixture video_page no_json not_found_response)
      ''https://www.instagram.com/reel/Cx1/'' = Some (''Cx1'', video_page)"
    by code_simp
  have a: "re_search additional_data_re video_page = None"
    by code_simp
  have b: "re_search graph_image_re video_page = None"
    by code_simp
  have c: "re_search graph_video_re video_page
       = Some (''https://v.example/a.mp4?x=1'' @ amp_escape @ ''y=2'')"
    by code_simp
  have u: "py_replace amp_escape ''&'' (''https://v.example/a.mp4?x=1'' @ amp_escape @ ''y=2'')
       = ''https://v.example/a.mp4?x=1&y=2''"
    by code_simp
  note chain = instagram_fallback_chain
      [where w = "fixture video_page no_json not_found_response"
         and url = "''https://www.instagram.com/reel/Cx1/''" and shortcode = "''Cx1''"
         and content = video_page
         and g = "''https://v.example/a.mp4?x=1'' @ amp_escape @ ''y=2''",
       THEN conjunct1, rule_format, OF conjI, OF page conjI, OF a conjI, OF b c]
  from chain page a b c show ?thesis
    by (simp only: u simp_thms)
qed

subsection \<open>The TikTok resolver\<close>

lemma tiktok_page_read:
  "tiktok_page w url = Some (video_id, content) \<Longrightarrow>
   tiktok_get_video_info w url = tiktok_read_page w video_id content"
  by (auto simp: tiktok_page_def tiktok_get_video_info_def
           split: option.splits sum.splits if_splits)

lemma tiktok_state_item:
  "(tiktok_read_state data video_id = Inr (Failed (NotFound ''Video data not found'')))
     = lacks_item data video_id"
  by (cases data)
     (auto simp: lacks_item_def absent_or_empty_def is_object_def member_def
                 tiktok_read_state_def try_bind_def
           split: option.splits json.splits sum.splits if_splits)

lemma tiktok_state_addresses:
  "(tiktok_read_state data video_id
      = Inr (Failed (NotFound ''Could not find video download URL'')))
     = lacks_addresses data video_id"
  by (cases data)
     (auto simp: lacks_addresses_def absent_or_empty_def is_object_def member_def
                 tiktok_read_state_def try_bind_def
           split: option.splits json.splits sum.splits if_splits)

lemma tiktok_state_misshapen:
  "(tiktok_read_state data video_id = Inl AttributeError) = misshapen data video_id"
  by (cases data)
     (auto simp: misshapen_def absent_or_empty_def is_object_def member_def
                 tiktok_read_state_def try_bind_def
           split: option.splits json.splits sum.splits if_splits)

lemma py_get_error: "py_get v k d = Inl e \<Longrightarrow> e = AttributeError"
  by (cases v) auto

lemma tiktok_read_state_outcomes:
  "tiktok_read_state data video_id = Inl AttributeError
   \<or> tiktok_read_state data video_id = Inr (Failed (NotFound ''Video data not found''))
   \<or> tiktok_read_state data video_id
       = Inr (Failed (NotFound ''Could not find video download URL''))
   \<or> (\<exists>info. tiktok_read_state data video_id = Inr (Resolved info)
         \<and> truthy (tk_download_url info) \<and> tk_video_id info = video_id)"
  by (auto simp: tiktok_read_state_def try_bind_def split: sum.splits dest: py_get_error)

lemma tiktok_decoded:
  assumes "tiktok_page w url = Some (video_id, content)"
    and "re_search sigi_state_re content = Some blob"
    and "json_loads w blob = Inr data"
  shows "tiktok_get_video_info w url =
           (case tiktok_read_state data video_id of
              Inl e \<Rightarrow> Failed (Fault ''Failed to get video info: '' e)
            | Inr r \<Rightarrow> r)"
  using assms by (simp add: tiktok_page_read tiktok_read_page_def)

text \<open>
  C3, as amended. Let the page of a TikTok video be read (an id in the final URL,
  status 200). The resolver fails with a NotFound failure when the \<open>SIGI_STATE\<close>
  pattern does not match the page, with the ParseError failure when \<open>json.loads\<close>
  raises \<open>JSONDecodeError\<close> on the text of the script, and with the general failure
  of the enclosing handler when \<open>json.loads\<close> raises another exception. When the
  text decodes, the resolver fails with a NotFound failure exactly when the decoded
  state is an object whose \<open>ItemModule\<close> is missing or is an object in which the
  entry for the video id is missing or empty (\<open>null\<close>, \<open>false\<close>, \<open>0\<close>, \<open>''\<close>,
  \<open>[]\<close> and \<open>{}\<close> are empty), or the entry is a non-empty object whose \<open>video\<close>
  is missing or is an object in which \<open>downloadAddr\<close> and \<open>playAddr\<close> are each
  missing or empty. It fails with the general failure of the enclosing handler,
  carrying an \<open>AttributeError\<close>, exactly when the state is not an object, or its
  \<open>ItemModule\<close> is there and is not an object, or the entry is not empty and is
  not an object, or the entry is a non-empty object whose \<open>video\<close> is there and is
  not an object. Otherwise it returns the medium with the requested id and a non-empty
  address. So from the page on the resolver always returns a result.
\<close>

theorem tiktok_failures:
  "(tiktok_page w url = Some (video_id, content)
      \<and> re_search sigi_state_re content = None \<longrightarrow>
        tiktok_get_video_info w url = Failed (NotFound ''Could not find video data in page''))
   \<and> (tiktok_page w url = Some (video_id, content)
      \<and> re_search sigi_state_re content = Some blob
      \<and> json_loads w blob = Inl JSONDecodeError \<longrightarrow>
        tiktok_get_video_info w url = Failed (ParseError ''Failed to parse video data''))
   \<and> (tiktok_page w url = Some (video_id, content)
      \<and> re_search sigi_state_re content = Some blob
      \<and> json_loads w blob = Inl e \<and> e \<noteq> JSONDecodeError \<longrightarrow>
        tiktok_get_video_info w url = Failed (Fault ''Failed to get video info: '' e))
   \<and> (tiktok_page w url = Some (video_id, content)
      \<and> re_search sigi_state_re content = Some blob \<and> json_loads w blob = Inr data \<longrightarrow>
        ((tiktok_get_video_info w url = Failed (NotFound ''Video data not found''))
           = lacks_item data video_id)
        \<and> ((tiktok_get_video_info w url
              = Failed (NotFound ''Could not find video download URL''))
           = lacks_addresses data video_id)
        \<and> ((tiktok_get_video_info w url
              = Failed (Fault ''Failed to get video info: '' AttributeError))
           = misshapen data video_id)
        \<and> (lacks_item data video_id \<or> lacks_addresses data video_id
             \<or> misshapen data video_id
             \<or> (\<exists>info. tiktok_get_video_info w url = Resolved info
                   \<and> truthy (tk_download_url info) \<and> tk_video_id info = video_id)))"
proof (intro conjI impI)
  assume "tiktok_page w url = Some (video_id, content)
      \<and> re_search sigi_state_re content = None"
  with tiktok_page_read [of w url video_id content]
  show "tiktok_get_video_info w url = Failed (NotFound ''Could not find video data in page'')"
    by (simp add: tiktok_read_page_def)
next
  assume "tiktok_page w url = Some (video_id, content)
      \<and> re_search sigi_state_re content = Some blob
      \<and> json_loads w blob = Inl JSONDecodeError"
  with tiktok_page_read [of w url video_id content]
  show "tiktok_get_video_info w url = Failed (ParseError ''Failed to parse video data'')"
    by (simp add: tiktok_read_page_def)
next
  assume "tiktok_page w url = Some (video_id, content)
      \<and> re_search sigi_state_re content = Some blob
      \<and> json_loads w blob = Inl e \<and> e \<noteq> JSONDecodeError"
  with tiktok_page_read [of w url video_id content]
  show "tiktok_get_video_info w url = Failed (Fault ''Failed to get video info: '' e)"
    by (cases e) (simp_all add: tiktok_read_page_def)
next
  assume a: "tiktok_page w url = Some (video_id, content)
      \<and> re_search sigi_state_re content = Some blob \<and> json_loads w blob = Inr data"
  then have r: "tiktok_get_video_info w url =
           (case tiktok_read_state data video_id of
              Inl e \<Rightarrow> Failed (Fault ''Failed to get video info: '' e)
            | Inr r \<Rightarrow> r)"
    by (simp add: tiktok_decoded)
  note o = tiktok_read_state_outcomes [of data video_id]
  show "(tiktok_get_video_info w url = Failed (NotFound ''Video data not found''))
           = lacks_item data video_id"
    unfolding r tiktok_state_item [symmetric] using o by auto
  show "(tiktok_get_video_info w url
              = Failed (NotFound ''Could not find video download URL''))
           = lacks_addresses data video_id"
    unfolding r tiktok_state_addresses [symmetric] using o by auto
  show "(tiktok_get_video_info w url
              = Failed (Fault ''Failed to get video info: '' AttributeError))
           = misshapen data video_id"
    unfolding r tiktok_state_misshapen [symmetric] using o by auto
  show "lacks_item data video_id \<or> lacks_addresses data video_id
             \<or> misshapen data video_id
             \<or> (\<exists>info. tiktok_get_video_info w url = Resolved info
                   \<and> truthy (tk_download_url info) \<and> tk_video_id info = video_id)"
    unfolding r tiktok_state_item [symmetric] tiktok_state_addresses [symmetric]
      tiktok_state_misshapen [symmetric]
    using o by auto
qed

theorem tiktok_failures_witness:
  "tiktok_page (fixture other_video_page other_video_loads not_found_response)
      ''https://www.tiktok.com/@u/video/7'' = Some (''7'', other_video_page)
   \<and> re_search sigi_state_re other_video_page = Some other_video_blob
   \<and> other_video_loads other_video_blob
       = Inr (JObj [(''ItemModule'', JObj [(''8'', JObj [(''video'',
                   JObj [(''playAddr'', JStr ''https://v.example/8'')])])])])
   \<and> lacks_item (JObj [(''ItemModule'', JObj [(''8'', JObj [(''video'',
                   JObj [(''playAddr'', JStr ''https://v.example/8'')])])])]) ''7''
   \<and> tiktok_get_video_info (fixture other_video_page other_video_loads not_found_response)
        ''https://www.tiktok.com/@u/video/7'' = Failed (NotFound ''Video data not found'')"
proof -
  let ?w = "fixture other_video_page other_video_loads not_found_response"
  let ?data = "JObj [(''ItemModule'', JObj [(''8'', JObj [(''video'',
                   JObj [(''playAddr'', JStr ''https://v.example/8'')])])])]"
  have page: "tiktok_page ?w ''https://www.tiktok.com/@u/video/7'' = Some (''7'', other_video_page)"
    by code_simp
  have blob: "re_search sigi_state_re other_video_page = Some other_video_blob"
    by code_simp
  have decoded: "other_video_loads other_video_blob = Inr ?data"
    by (simp add: other_video_loads_def)
  have loads: "json_loads ?w other_video_blob = Inr ?data"
    by (simp add: fixture_def other_video_loads_def)
  have lacks: "lacks_item ?data ''7''"
    by code_simp
  note failures = tiktok_failures
      [where w = ?w and url = "''https://www.tiktok.com/@u/video/7''" and video_id = "''7''"
         and content = other_video_page and blob = other_video_blob and data = ?data,
       THEN conjunct2, THEN conjunct2, THEN conjunct2, rule_format, OF conjI, OF page conjI,
       OF blob loads,
       THEN conjunct1]
  from failures lacks
  have failure: "tiktok_get_video_info ?w ''https://www.tiktok.com/@u/video/7''
      = Failed (NotFound ''Video data not found'')"
    by (simp only: simp_thms)
  show ?thesis
    by (intro conjI page blob decoded lacks failure)
qed

text \<open>
  C3 as stated fails: on a page whose state holds \<open>null\<close> as the \<open>video\<close> of the
  requested entry, the script is there, its text decodes, both addresses are absent,
  and the failure is not a NotFound one but the general one of the enclosing handler.
\<close>

theorem tiktok_failures_counterexample:
  "tiktok_page (fixture null_video_page null_video_loads not_found_response)
      ''https://www.tiktok.com/@u/video/7'' = Some (''7'', null_video_page)
   \<and> re_search sigi_state_re null_video_page = Some null_video_blob
   \<and> null_video_loads null_video_blob
       = Inr (JObj [(''ItemModule'', JObj [(''7'', JObj [(''video'', JNull)])])])
   \<and> tiktok_get_video_info (fixture null_video_page null_video_loads not_found_response)
        ''https://www.tiktok.com/@u/video/7''
       = Failed (Fault ''Failed to get video info: '' AttributeError)"
  by code_simp

subsection \<open>The Pinterest resolver\<close>

lemma pinterest_page_read:
  "pinterest_page w url = Some (pin, content) \<Longrightarrow>
   pinterest_get_pin_info w url = pinterest_read_page pin content"
  by (auto simp: pinterest_page_def pinterest_get_pin_info_def
           split: option.splits sum.splits if_splits)

lemma read_script_None: "(read_script pin script = None) = (\<not> script_yields script)"
  by (auto simp: read_script_def script_yields_def Let_def split: option.splits)

lemma scan_scripts_find:
  "scan_scripts pin scripts =
     (case find script_yields scripts of None \<Rightarrow> None | Some script \<Rightarrow> read_script pin script)"
proof (induction scripts)
  case Nil
  then show ?case by simp
next
  case (Cons script scripts)
  then show ?case
    using read_script_None [of pin script]
    by (cases "read_script pin script") auto
qed

lemma read_script_title:
  "read_script pin script = Some info \<Longrightarrow> pin_title info = ellipsize (script_title script)"
  by (auto simp: read_script_def Let_def script_title_def ellipsize_def
           split: if_splits option.splits)

lemma match_item_split:
  "r \<in> set (match_item i s) \<Longrightarrow>
   \<exists>a. s = a @ r \<and> (case i of Lit l \<Rightarrow> a = l | Alt ls \<Rightarrow> a \<in> set ls | _ \<Rightarrow> True)"
proof (cases i)
  case (Lit l)
  assume "r \<in> set (match_item i s)"
  with Lit show ?thesis
    by (auto simp: prefix_def split: if_splits)
next
  case (Star p)
  assume "r \<in> set (match_item i s)"
  with Star obtain k where "r = drop k s" by auto
  with Star show ?thesis
    by (auto intro: exI [of _ "take k s"])
next
  case (Plus p)
  assume "r \<in> set (match_item i s)"
  with Plus obtain k where "r = drop k s" by auto
  with Plus show ?thesis
    by (auto intro: exI [of _ "take k s"])
next
  case (Lazy p)
  assume "r \<in> set (match_item i s)"
  with Lazy obtain k where "r = drop k s" by auto
  with Lazy show ?thesis
    by (auto intro: exI [of _ "take k s"])
next
  case (Alt ls)
  assume "r \<in> set (match_item i s)"
  with Alt show ?thesis
    by (auto simp: prefix_def split: if_splits)
qed

lemma media_url_group_split:
  assumes "r2 \<in> set (match_items (grp media_url_re) r1)"
  shows "\<exists>a ext b. r1 = a @ ''.'' @ ext @ b @ r2 \<and> ext \<in> set media_extensions"
proof -
  from assms obtain s1 s2 s3 where
      m1: "s1 \<in> set (match_item (Plus (not_char (CHR 0x22))) r1)"
    and m2: "s2 \<in> set (match_item (Lit ''.'') s1)"
    and m3: "s3 \<in> set (match_item (Alt [''jpg'', ''jpeg'', ''png'', ''mp4'', ''webm'']) s2)"
    and m4: "r2 \<in> set (match_item (Star (not_char (CHR 0x22))) s3)"
    unfolding media_url_re_def by (simp del: match_item.simps) blast
  from match_item_split [OF m1] obtain a where a: "r1 = a @ s1" by auto
  from match_item_split [OF m2] have d: "s1 = ''.'' @ s2" by auto
  from match_item_split [OF m3] obtain ext where
    e: "s2 = ext @ s3" "ext \<in> set media_extensions"
    by (auto simp: media_extensions_def)
  from match_item_split [OF m4] obtain b where b: "s3 = b @ r2" by auto
  from a d e b show ?thesis by auto
qed

lemma re_search_match:
  "re_search p s = Some g \<Longrightarrow> \<exists>t r rest. suffix t s \<and> match_at p t = (g, r) # rest"
proof (induction s)
  case Nil
  then show ?case by (auto split: list.splits)
next
  case (Cons c cs)
  show ?case
  proof (cases "match_at p (c # cs)")
    case Nil
    with Cons.prems have "re_search p cs = Some g" by simp
    from Cons.IH [OF this] show ?thesis
      by (blast intro: suffix_ConsI)
  next
    case matched: (Cons m rest)
    with Cons.prems obtain r where "m = (g, r)"
      by (cases m) auto
    with matched have "suffix (c # cs) (c # cs) \<and> match_at p (c # cs) = (g, r) # rest"
      by simp
    then show ?thesis by blast
  qed
qed

lemma match_at_member:
  "(g, r3) \<in> set (match_at p t) \<Longrightarrow>
   \<exists>r1 r2. r1 \<in> set (match_items (pre p) t) \<and> r2 \<in> set (match_items (grp p) r1)
      \<and> g = take (length r1 - length r2) r1"
  by (auto simp: match_at_def)

lemma media_url_has_extension:
  assumes "re_search media_url_re script = Some g"
  shows "\<exists>ext \<in> set media_extensions. sublist (''.'' @ ext) g"
proof -
  from re_search_match [OF assms] obtain t r rest where
    "match_at media_url_re t = (g, r) # rest" by blast
  then have "(g, r) \<in> set (match_at media_url_re t)" by simp
  from match_at_member [OF this] obtain r1 r2 where
      r2: "r2 \<in> set (match_items (grp media_url_re) r1)"
    and g: "g = take (length r1 - length r2) r1"
    by blast
  from media_url_group_split [OF r2] obtain a ext b where
    s: "r1 = a @ ''.'' @ ext @ b @ r2" and e: "ext \<in> set media_extensions"
    by blast
  from s g have "g = a @ (''.'' @ ext) @ b" by simp
  then have "sublist (''.'' @ ext) g"
    unfolding sublist_def by blast
  with e show ?thesis by blast
qed

text \<open>
  C6, as amended. Let a Pinterest pin page be read (a pin id in the URL, status 200).
  The resolver goes, in their order, through the texts that the pattern
  \<^verbatim>\<open><script[^>]*>([^<]*)</script>\<close> captures in the page (the body of a script
  element is captured only if it holds no \<open><\<close>), and returns from the first of
  them that holds \<open>pinterestapp:pins\<close> or \<open>"Pin"\<close>, has a match of
  \<^verbatim>\<open>\{[^}]*"images"[^}]*\}\<close> and has a match of the media URL pattern
  \<^verbatim>\<open>"url":\s*"([^"]+\.(?:jpg|jpeg|png|mp4|webm)[^"]*)"\<close>. The medium is the
  text the media URL pattern captures, which contains a dot followed by one of jpg,
  jpeg, png, mp4, webm (it need not end there), with \<open>\/\<close> turned into \<open>/\<close>; the
  title is the text \<^verbatim>\<open>"title":\s*"([^"]*)"\<close> captures in the same text, or
  \<open>Pinterest Media\<close> when it has no match, cut to 100 characters. If none of the
  captured texts is such a one, the resolver returns what the pattern
  \<^verbatim>\<open><meta property="og:image" content="([^"]+)"\<close> captures at its first match in
  the page, as a photo with the title \<open>Pinterest Image\<close>. The NotFound failure is
  returned exactly when none of the captured texts is such a one and that last pattern
  has no match in the page.
\<close>

theorem pinterest_strategies:
  "(read_script pin script = None) = (\<not> script_yields script)
   \<and> (read_script pin script = Some pn \<longrightarrow>
        (\<exists>g. re_search media_url_re script = Some g
           \<and> (\<exists>ext \<in> set media_extensions. sublist (''.'' @ ext) g)
           \<and> pin_media_url pn = py_replace (CHR 0x5C # ''/'') ''/'' g)
        \<and> pin_title pn = ellipsize (script_title script) \<and> pin_id pn = pin)
   \<and> (pinterest_page w url = Some (pin, content)
        \<and> find script_yields (re_findall script_re content) = Some script \<longrightarrow>
          (\<exists>info. read_script pin script = Some info
             \<and> pinterest_get_pin_info w url = Resolved info))
   \<and> (pinterest_page w url = Some (pin, content)
        \<and> find script_yields (re_findall script_re content) = None
        \<and> re_search og_image_re content = Some og_url \<longrightarrow>
          pinterest_get_pin_info w url =
            Resolved \<lparr>pin_id = pin, pin_media_url = og_url, pin_is_video = False,
                      pin_title = ''Pinterest Image''\<rparr>)
   \<and> (pinterest_page w url = Some (pin, content) \<longrightarrow>
        (pinterest_get_pin_info w url
           = Failed (NotFound ''Could not find media data in Pinterest page''))
        = (find script_yields (re_findall script_re content) = None
           \<and> re_search og_image_re content = None))"
proof (intro conjI impI)
  show "(read_script pin script = None) = (\<not> script_yields script)"
    by (rule read_script_None)
next
  assume r: "read_script pin script = Some pn"
  then obtain g where g: "re_search media_url_re script = Some g"
    and u: "pin_media_url pn = py_replace (CHR 0x5C # ''/'') ''/'' g"
    by (auto simp: read_script_def Let_def split: if_splits option.splits)
  from media_url_has_extension [OF g] g u
  show "\<exists>g. re_search media_url_re script = Some g
           \<and> (\<exists>ext \<in> set media_extensions. sublist (''.'' @ ext) g)
           \<and> pin_media_url pn = py_replace (CHR 0x5C # ''/'') ''/'' g"
    by blast
  from r show "pin_title pn = ellipsize (script_title script)"
    by (rule read_script_title)
  from r show "pin_id pn = pin"
    by (auto simp: read_script_def Let_def split: if_splits option.splits)
next
  assume a: "pinterest_page w url = Some (pin, content)
        \<and> find script_yields (re_findall script_re content) = Some script"
  then have "script_yields script"
    by (auto simp: find_Some_iff)
  then obtain info where i: "read_script pin script = Some info"
    using read_script_None [of pin script] by auto
  with a pinterest_page_read [of w url pin content]
  have "pinterest_get_pin_info w url = Resolved info"
    by (simp add: pinterest_read_page_def scan_scripts_find)
  with i show "\<exists>info. read_script pin script = Some info
             \<and> pinterest_get_pin_info w url = Resolved info"
    by blast
next
  assume "pinterest_page w url = Some (pin, content)
        \<and> find script_yields (re_findall script_re content) = None
        \<and> re_search og_image_re content = Some og_url"
  with pinterest_page_read [of w url pin content]
  show "pinterest_get_pin_info w url =
            Resolved \<lparr>pin_id = pin, pin_media_url = og_url, pin_is_video = False,
                      pin_title = ''Pinterest Image''\<rparr>"
    by (simp add: pinterest_read_page_def scan_scripts_find)
next
  assume a: "pinterest_page w url = Some (pin, content)"
  show "(pinterest_get_pin_info w url
           = Failed (NotFound ''Could not find media data in Pinterest page''))
        = (find script_yields (re_findall script_re content) = None
           \<and> re_search og_image_re content = None)"
  proof (cases "find script_yields (re_findall script_re content)")
    case None
    then show ?thesis
      by (simp add: pinterest_page_read [OF a] pinterest_read_page_def scan_scripts_find
               split: option.splits)
  next
    case (Some script)
    then have "script_yields script"
      by (auto simp: find_Some_iff)
    then obtain info where "read_script pin script = Some info"
      using read_script_None [of pin script] by auto
    with Some show ?thesis
      by (simp add: pinterest_page_read [OF a] pinterest_read_page_def scan_scripts_find)
  qed
qed

theorem pinterest_strategies_witness:
  "pinterest_page (fixture og_pin_page no_json not_found_response)
      ''https://www.pinterest.com/pin/12/'' = Some (''12'', og_pin_page)
   \<and> find script_yields (re_findall script_re og_pin_page) = None
   \<and> re_search og_image_re og_pin_page = Some ''https://i.pinimg.com/b.png''
   \<and> pinterest_get_pin_info (fixture og_pin_page no_json not_found_response)
        ''https://www.pinterest.com/pin/12/''
       = Resolved \<lparr>pin_id = ''12'', pin_media_url = ''https://i.pinimg.com/b.png'',
                   pin_is_video = False, pin_title = ''Pinterest Image''\<rparr>
   \<and> script_yields pin_script
   \<and> read_script ''12'' pin_script \<noteq> None"
proof -
  let ?w = "fixture og_pin_page no_json not_found_response"
  have page: "pinterest_page ?w ''https://www.pinterest.com/pin/12/'' = Some (''12'', og_pin_page)"
    by code_simp
  have none: "find script_yields (re_findall script_re og_pin_page) = None"
    by code_simp
  have og: "re_search og_image_re og_pin_page = Some ''https://i.pinimg.com/b.png''"
    by code_simp
  have yields: "script_yields pin_script"
    by code_simp
  note strategies = pinterest_strategies
      [where w = ?w and url = "''https://www.pinterest.com/pin/12/''" and pin = "''12''"
         and content = og_pin_page and og_url = "''https://i.pinimg.com/b.png''"
         and script = pin_script]
  note fallback = strategies [THEN conjunct2, THEN conjunct2, THEN conjunct2, THEN conjunct1,
      rule_format, OF conjI, OF page conjI, OF none og]
  from strategies [THEN conjunct1] yields have some: "read_script ''12'' pin_script \<noteq> None"
    by simp
  show ?thesis
    by (intro conjI page none og fallback yields some)
qed

text \<open>
  C6 as stated fails: the only script of this pin page holds a pin marker and a URL
  that the media URL pattern matches, and the pattern for the Open Graph image has no
  match in the page; the script has no match of \<^verbatim>\<open>\{[^}]*"images"[^}]*\}\<close>, so
  the loop passes it over and the resolver returns the NotFound failure.
\<close>

theorem pinterest_strategies_counterexample:
  "re_findall script_re bare_pin_page = [bare_pin_script]
   \<and> has_pin_marker bare_pin_script
   \<and> re_search media_url_re bare_pin_script = Some ''https://i.pinimg.com/a.jpg''
   \<and> pinterest_get_pin_info (fixture bare_pin_page no_json not_found_response)
        ''https://www.pinterest.com/pin/12/''
       = Failed (NotFound ''Could not find media data in Pinterest page'')"
  by code_simp

subsection \<open>Titles\<close>

lemma clip_str: "clip (JStr c) = Inr (JStr (ellipsize c))"
  by (simp add: clip_def try_bind_def ellipsize_def)

lemma py_get_obj:
  "py_get v k d = Inr x \<Longrightarrow>
   \<exists>kvs. v = JObj kvs \<and> x = (case map_of kvs k of None \<Rightarrow> d | Some y \<Rightarrow> y)"
  by (cases v) auto

lemma instagram_caption_clipped:
  assumes r: "instagram_read_data data shortcode = Inr (Resolved info)"
    and c: "caption_text data = Some c"
  shows "ig_caption info = JStr (ellipsize c)"
proof -
  from r obtain graphql media_data to_caption edges caption clipped where
      g: "py_get data ''graphql'' (JObj []) = Inr graphql"
    and m: "py_get graphql ''shortcode_media'' (JObj []) = Inr media_data"
    and t: "py_get media_data ''edge_media_to_caption'' (JObj []) = Inr to_caption"
    and e: "py_get to_caption ''edges'' (JArr []) = Inr edges"
    and cap: "(if truthy edges
               then try_bind (py_first edges) (\<lambda>edge.
                    try_bind (py_get edge ''node'' (JObj [])) (\<lambda>node.
                      py_get node ''text'' (JStr [])))
               else Inr (JStr [])) = Inr caption"
    and cl: "clip caption = Inr clipped"
    and i: "ig_caption info = clipped"
    by (auto simp: instagram_read_data_def try_bind_def split: sum.splits if_splits)
  from g c m have mm: "member graphql ''shortcode_media'' = Some media_data"
    and gg: "member data ''graphql'' = Some graphql"
    by (auto simp: caption_text_def member_def dest!: py_get_obj split: option.splits)
  have "caption = JStr c"
  proof (cases "member media_data ''edge_media_to_caption''")
    case None
    with t e cap c gg mm show ?thesis
      by (auto simp: caption_text_def member_def dest!: py_get_obj split: option.splits)
  next
    case (Some tc)
    with t have tc: "to_caption = tc"
      by (auto simp: member_def dest!: py_get_obj split: option.splits)
    show ?thesis
    proof (cases "member tc ''edges''")
      case None
      with e cap c gg mm Some tc show ?thesis
        by (auto simp: caption_text_def member_def dest!: py_get_obj split: option.splits)
    next
      case es: (Some es)
      with e tc have "edges = es"
        by (auto simp: member_def dest!: py_get_obj split: option.splits)
      with cap c gg mm Some es show ?thesis
        by (auto simp: caption_text_def try_bind_def member_def dest!: py_get_obj
                 split: option.splits json.splits list.splits sum.splits if_splits)
    qed
  qed
  with cl i show ?thesis by (simp add: clip_str)
qed

lemma fetch_and_check_title:
  assumes "fst (fetch_and_check cfg w label url filename media_type limit title files) = Inr d"
    and "succeeded d"
  shows "map_of d ''title'' = Some title"
  using assms
  by (cases rule: fetch_and_check_cases
        [of w url cfg filename label media_type limit title files])
     (auto simp: succeeded_simps download_success_def split: if_splits)

lemma pinterest_found_title:
  assumes page: "pinterest_page w url = Some (pin, content)"
    and found: "find script_yields (re_findall script_re content) = Some found"
  shows "\<exists>info. pinterest_get_pin_info w url = Resolved info
           \<and> pin_title info = ellipsize (script_title found)"
proof -
  from found have "script_yields found"
    by (auto simp: find_Some_iff)
  then obtain info where i: "read_script pin found = Some info"
    using read_script_None [of pin found] by auto
  with found have "pinterest_get_pin_info w url = Resolved info"
    by (simp add: pinterest_page_read [OF page] pinterest_read_page_def scan_scripts_find)
  with read_script_title [OF i] show ?thesis by blast
qed

lemma pinterest_resolved_title:
  assumes "pinterest_get_pin_info w url = Resolved pn"
  shows "\<exists>number page. pinterest_page w url = Some (number, page)
           \<and> pin_title pn = (case find script_yields (re_findall script_re page) of
                               Some found \<Rightarrow> ellipsize (script_title found)
                             | None \<Rightarrow> ''Pinterest Image'')"
proof -
  from assms obtain number page where page: "pinterest_page w url = Some (number, page)"
    by (auto simp: pinterest_get_pin_info_def pinterest_page_def
             split: sum.splits option.splits if_splits)
  show ?thesis
  proof (cases "find script_yields (re_findall script_re page)")
    case None
    with assms have "pin_title pn = ''Pinterest Image''"
      by (auto simp: pinterest_page_read [OF page] pinterest_read_page_def scan_scripts_find
               split: option.splits)
    with page None show ?thesis by simp
  next
    case (Some found)
    from pinterest_found_title [OF page Some] assms
    have "pin_title pn = ellipsize (script_title found)"
      by auto
    with page Some show ?thesis by simp
  qed
qed

text \<open>
  C8. The title placed in the result is the resolved text cut to its first 100
  characters with \<open>...\<close> appended when the text is longer than 100 characters, and the
  text unchanged when it has at most 100. For Instagram the text is the caption of the
  decoded embed object. For Pinterest it is the title of the first script the resolver
  returns from (the text its title pattern captures there, or \<open>Pinterest Media\<close>):
  when the page is read and has such a script, the resolver succeeds with that title
  cut; and whenever the Pinterest resolver succeeds, the page was read and the title
  is that cut title, or \<open>Pinterest Image\<close> when the page has no such script. The cut
  text is what a successful \<open>download\<close> returns as \<open>title\<close>.
\<close>

theorem titles_are_clipped:
  "(instagram_embed_page w url = Some (shortcode, content)
      \<and> re_search additional_data_re content = Some blob \<and> json_loads w blob = Inr data
      \<and> caption_text data = Some c
      \<and> instagram_get_media_info w url = Resolved ii \<longrightarrow>
        ig_caption ii = JStr (ellipsize c)
        \<and> (fst (instagram_download cfg w url files) = Inr d \<and> succeeded d \<longrightarrow>
             map_of d ''title'' = Some (JStr (ellipsize c))))
   \<and> (read_script pin script = Some pn \<longrightarrow> pin_title pn = ellipsize (script_title script))
   \<and> (pinterest_page w url = Some (pin, page)
      \<and> find script_yields (re_findall script_re page) = Some found \<longrightarrow>
        (\<exists>info. pinterest_get_pin_info w url = Resolved info
           \<and> pin_title info = ellipsize (script_title found))
        \<and> (fst (pinterest_download cfg w url files) = Inr d \<and> succeeded d \<longrightarrow>
             map_of d ''title'' = Some (JStr (ellipsize (script_title found)))))
   \<and> (pinterest_get_pin_info w url = Resolved pn \<longrightarrow>
        (\<exists>number text. pinterest_page w url = Some (number, text)
           \<and> pin_title pn = (case find script_yields (re_findall script_re text) of
                               Some first \<Rightarrow> ellipsize (script_title first)
                             | None \<Rightarrow> ''Pinterest Image''))
        \<and> (fst (pinterest_download cfg w url files) = Inr d \<and> succeeded d \<longrightarrow>
             map_of d ''title'' = Some (JStr (pin_title pn))))
   \<and> (length s \<le> 100 \<longrightarrow> ellipsize s = s)
   \<and> (100 < length s \<longrightarrow> ellipsize s = take 100 s @ ''...'' \<and> length (ellipsize s) = 103)"
proof (intro conjI impI)
  assume a: "instagram_embed_page w url = Some (shortcode, content)
      \<and> re_search additional_data_re content = Some blob \<and> json_loads w blob = Inr data
      \<and> caption_text data = Some c
      \<and> instagram_get_media_info w url = Resolved ii"
  with instagram_embed_page_read [of w url shortcode content]
  have "instagram_read_page w shortcode content = Resolved ii"
    by auto
  with a have "instagram_read_data data shortcode = Inr (Resolved ii)"
    by (simp add: instagram_read_page_def split: sum.splits)
  with a show cap: "ig_caption ii = JStr (ellipsize c)"
    by (simp add: instagram_caption_clipped)
  assume "fst (instagram_download cfg w url files) = Inr d \<and> succeeded d"
  with a instagram_download_resolved [of w url ii cfg files] cap
  show "map_of d ''title'' = Some (JStr (ellipsize c))"
    by (auto dest: fetch_and_check_title)
next
  assume "read_script pin script = Some pn"
  then show "pin_title pn = ellipsize (script_title script)"
    by (rule read_script_title)
next
  assume a: "pinterest_page w url = Some (pin, page)
      \<and> find script_yields (re_findall script_re page) = Some found"
  then show f: "\<exists>info. pinterest_get_pin_info w url = Resolved info
           \<and> pin_title info = ellipsize (script_title found)"
    by (simp add: pinterest_found_title)
  assume d: "fst (pinterest_download cfg w url files) = Inr d \<and> succeeded d"
  from f obtain info where i: "pinterest_get_pin_info w url = Resolved info"
    and t: "pin_title info = ellipsize (script_title found)"
    by blast
  from d pinterest_download_resolved [OF i, of cfg files] t
  show "map_of d ''title'' = Some (JStr (ellipsize (script_title found)))"
    by (auto dest: fetch_and_check_title)
next
  assume "pinterest_get_pin_info w url = Resolved pn"
  then show "\<exists>number text. pinterest_page w url = Some (number, text)
           \<and> pin_title pn = (case find script_yields (re_findall script_re text) of
                               Some first \<Rightarrow> ellipsize (script_title first)
                             | None \<Rightarrow> ''Pinterest Image'')"
    by (rule pinterest_resolved_title)
next
  assume "pinterest_get_pin_info w url = Resolved pn"
    and "fst (pinterest_download cfg w url files) = Inr d \<and> succeeded d"
  with pinterest_download_resolved [of w url pn cfg files]
  show "map_of d ''title'' = Some (JStr (pin_title pn))"
    by (auto dest: fetch_and_check_title)
qed (simp_all add: ellipsize_def)

theorem titles_are_clipped_witness:
  "instagram_embed_page (fixture captioned_page captioned_loads (payload_of [''ab'']))
      ''https://www.instagram.com/p/Cx1/'' = Some (''Cx1'', captioned_page)
   \<and> re_search additional_data_re captioned_page = Some captioned_blob
   \<and> json_loads (fixture captioned_page captioned_loads (payload_of [''ab''])) captioned_blob
       = Inr captioned_data
   \<and> caption_text captioned_data = Some long_caption
   \<and> length long_caption = 104
   \<and> instagram_get_media_info (fixture captioned_page captioned_loads (payload_of [''ab'']))
        ''https://www.instagram.com/p/Cx1/''
       = Resolved \<lparr>ig_media_id = ''Cx1'', ig_media_url = JStr ''https://i.example/a.jpg'',
                   ig_is_video = JBool False,
                   ig_caption = JStr (take 100 long_caption @ ''...'')\<rparr>
   \<and> pinterest_page (fixture long_pin_page no_json (payload_of [''ab'']))
        ''https://www.pinterest.com/pin/12/'' = Some (''12'', long_pin_page)
   \<and> find script_yields (re_findall script_re long_pin_page) = Some long_pin_script
   \<and> script_title long_pin_script = long_caption
   \<and> (\<exists>info. pinterest_get_pin_info (fixture long_pin_page no_json (payload_of [''ab'']))
                 ''https://www.pinterest.com/pin/12/'' = Resolved info
          \<and> pin_title info = take 100 long_caption @ ''...'')
   \<and> fst (pinterest_download small_config (fixture long_pin_page no_json (payload_of [''ab'']))
            ''https://www.pinterest.com/pin/12/'' Map.empty)
       = Inr (download_success ''downloads/pinterest_12.jpg'' ''photo''
                (JStr (take 100 long_caption @ ''...'')))
   \<and> map_of (download_success ''downloads/pinterest_12.jpg'' ''photo''
                (JStr (take 100 long_caption @ ''...''))) ''title''
       = Some (JStr (take 100 long_caption @ ''...''))"
proof -
  let ?w = "fixture captioned_page captioned_loads (payload_of [''ab''])"
  let ?info = "\<lparr>ig_media_id = ''Cx1'', ig_media_url = JStr ''https://i.example/a.jpg'',
                   ig_is_video = JBool False,
                   ig_caption = JStr (take 100 long_caption @ ''...'')\<rparr>"
  let ?p = "fixture long_pin_page no_json (payload_of [''ab''])"
  let ?d = "download_success ''downloads/pinterest_12.jpg'' ''photo''
                (JStr (take 100 long_caption @ ''...''))"
  have page: "instagram_embed_page ?w ''https://www.instagram.com/p/Cx1/''
       = Some (''Cx1'', captioned_page)"
    by code_simp
  have blob: "re_search additional_data_re captioned_page = Some captioned_blob"
    by code_simp
  have loads: "json_loads ?w captioned_blob = Inr captioned_data"
    by (simp add: fixture_def captioned_loads_def)
  have cap: "caption_text captioned_data = Some long_caption"
    by code_simp
  have len: "length long_caption = 104"
    by code_simp
  have data: "instagram_read_data captioned_data ''Cx1'' = Inr (Resolved ?info)"
    by code_simp
  have info: "instagram_get_media_info ?w ''https://www.instagram.com/p/Cx1/'' = Resolved ?info"
    unfolding instagram_embed_page_read [OF page]
    by (simp add: instagram_read_page_def blob loads data)
  have pin_page: "pinterest_page ?p ''https://www.pinterest.com/pin/12/''
       = Some (''12'', long_pin_page)"
    by code_simp
  have found: "find script_yields (re_findall script_re long_pin_page) = Some long_pin_script"
    by code_simp
  have title: "script_title long_pin_script = long_caption"
    by code_simp
  have download: "fst (pinterest_download small_config ?p ''https://www.pinterest.com/pin/12/''
      Map.empty) = Inr ?d"
    by code_simp
  have success: "succeeded ?d"
    by (simp add: succeeded_simps)
  note clipped = titles_are_clipped
      [where w = ?w and url = "''https://www.instagram.com/p/Cx1/''" and shortcode = "''Cx1''"
         and content = captioned_page and blob = captioned_blob and data = captioned_data
         and c = long_caption and ii = ?info]
  note caption = clipped [THEN conjunct1, rule_format, OF conjI, OF page conjI, OF blob conjI,
      OF loads conjI, OF cap info, THEN conjunct1]
  note pinned = titles_are_clipped
      [where w = ?p and url = "''https://www.pinterest.com/pin/12/''" and pin = "''12''"
         and page = long_pin_page and found = long_pin_script and cfg = small_config
         and files = Map.empty and d = ?d and s = long_caption,
       THEN conjunct2, THEN conjunct2]
  note cut = pinned [THEN conjunct2, THEN conjunct2, THEN conjunct2, rule_format,
      unfolded len, simplified, THEN conjunct1]
  note resolved = pinned [THEN conjunct1, rule_format, OF conjI, OF pin_page found,
      THEN conjunct1, unfolded title cut]
  note returned = pinned [THEN conjunct1, rule_format, OF conjI, OF pin_page found,
      THEN conjunct2, rule_format, OF conjI, OF download success, unfolded title cut]
  show ?thesis
    by (intro conjI page blob loads cap len info pin_page found title resolved download
          returned)
qed


end
